theory Spec2Isabelle
  imports Complex_Main
begin

section \<open>The Ollama relay handler (src/app/api/ollama/route.ts)\<close>

text \<open>
  The handler \<open>POST\<close> of \<open>route.ts\<close> reads a JSON request, forwards it to the Ollama
  backend under a 45 second deadline and turns the outcome into one HTTP response.
  Everything outside the handler (the inbound body parser, the process environment, the
  backend, the engine's string conversions) is collected in a record \<open>world\<close>; the handler
  is a function of that record. A thrown error is a value \<open>Inl e\<close>; the variables and
  objects the handler mutates are fields of \<open>handler_state\<close>.
\<close>

subsection \<open>Values\<close>

text \<open>
  A number as \<open>JSON.parse\<close> produces it: a double. A finite double other than negative
  zero is kept as the rational it is; \<open>-0\<close> and the two infinities (a literal such as
  \<open>1e400\<close> parses to \<open>Infinity\<close>) are values of their own. \<open>JSON.parse\<close> never gives
  \<open>NaN\<close>.
\<close>

datatype js_number = Fin rat | NegZero | PosInfinity | NegInfinity

text \<open>
  A value produced by \<open>JSON.parse\<close>. An object is the list of its properties in the
  order the engine enumerates them, which is also the order \<open>JSON.stringify\<close> writes
  them in; a read takes the first binding of a key (a parsed object has every key once).
  \<open>undefined\<close>, the result of reading a missing property, is \<open>None\<close> of \<open>jsval\<close>.
\<close>

datatype json =
    JNull
  | JBool bool
  | JNum js_number
  | JStr string
  | JArr "json list"
  | JObj "(string \<times> json) list"

type_synonym jsval = "json option"

text \<open>A thrown error with its \<open>name\<close> and \<open>message\<close>.\<close>

datatype js_error = JsError (err_name: string) (err_message: string)

text \<open>
  A promise the handler awaits: the number of milliseconds after which it settles, and
  what it settles to (\<open>Inl\<close>: it rejects with an error of its own). A promise that would
  never settle is one that settles after the deadline.
\<close>

datatype 'a awaited = After nat "js_error + 'a"

text \<open>The object literal \<open>requestBody\<close> (lines 21-25), before it is serialised.\<close>

record outbound_request =
  rb_model :: jsval
  rb_messages :: "(jsval \<times> jsval) list"
  rb_stream :: bool

text \<open>
  What the handler reads of the object \<open>fetch\<close> resolves to: \<open>status\<close>, \<open>statusText\<close>, and
  the promises \<open>response.text()\<close> and \<open>response.json()\<close>.
\<close>

record backend_response =
  resp_status :: nat
  resp_statusText :: string
  resp_text :: "string awaited"
  resp_json :: "json awaited"

text \<open>
  The \<open>Response\<close> the handler returns: its status and its body, given as the JSON value
  that the text of the body denotes.
\<close>

record http_response =
  http_status :: nat
  http_body :: json

text \<open>
  The surroundings of one call of the handler. \<open>ToString\<close> is the engine's conversion of a
  value other than a string inside a template literal (\<open>None\<close>: it throws a TypeError);
  \<open>toLowerCase\<close> is \<open>String.prototype.toLowerCase\<close>; \<open>fetch\<close> gives the promise of the
  outbound call for a URL and the JSON value that the text of the request body denotes.
\<close>

record world =
  env_OLLAMA_URL :: "string option"
  env_DEBUG_OLLAMA :: "string option"
  req_json :: "js_error + json"
  ToString :: "json \<Rightarrow> string option"
  toLowerCase :: "string \<Rightarrow> string"
  fetch :: "string \<Rightarrow> json \<Rightarrow> backend_response awaited"

text \<open>
  What the handler mutates: its variable \<open>timeoutId\<close> (\<open>None\<close> is \<open>null\<close>, otherwise the
  handle of the timer, kept here as the delay it was created with), the runtime's pending
  timer with the milliseconds left until it fires (\<open>None\<close> once it has fired or was
  cleared), the outbound calls issued so far, and the property \<open>availableModels\<close> that
  line 89 sets on the object \<open>response\<close> returned by \<open>fetch\<close>.
\<close>

record handler_state =
  timeoutId :: "nat option"
  pending_timer :: "nat option"
  fetch_calls :: "(string \<times> json) list"
  response_availableModels :: "string list option"

definition initial_state :: handler_state where
  "initial_state =
     \<lparr>timeoutId = None, pending_timer = None, fetch_calls = [], response_availableModels = None\<rparr>"

subsection \<open>The engine's primitives\<close>

definition TypeError :: "string \<Rightarrow> js_error" where
  "TypeError msg = JsError ''TypeError'' msg"

definition AbortError :: js_error where
  "AbortError = JsError ''AbortError'' ''This operation was aborted''"

definition quoted :: "string \<Rightarrow> string" where
  "quoted k = [CHR 0x27] @ k @ [CHR 0x27]"

text \<open>JavaScript truthiness, as \<open>||\<close>, \<open>&&\<close>, \<open>!\<close> and \<open>if\<close> test it.\<close>

fun truthy :: "json \<Rightarrow> bool" where
  "truthy JNull = False"
| "truthy (JBool b) = b"
| "truthy (JNum n) = (n \<noteq> Fin 0 \<and> n \<noteq> NegZero)"
| "truthy (JStr s) = (s \<noteq> [])"
| "truthy (JArr xs) = True"
| "truthy (JObj kvs) = True"

text \<open>
  Reading one of the properties the handler names (\<open>messages\<close>, \<open>model\<close>, \<open>baseUrl\<close>,
  \<open>role\<close>, \<open>content\<close>, \<open>message\<close>, \<open>response\<close>, \<open>models\<close>, \<open>data\<close>, \<open>name\<close>) from a value
  that is not \<open>null\<close>: an object gives its binding, every other value gives \<open>undefined\<close>.
  Reading from \<open>null\<close> throws.
\<close>

fun field :: "json \<Rightarrow> string \<Rightarrow> jsval" where
  "field (JObj kvs) k = map_of kvs k"
| "field v k = None"

definition get_prop :: "json \<Rightarrow> string \<Rightarrow> js_error + jsval" where
  "get_prop v k =
     (if v = JNull
      then Inl (TypeError (''Cannot read properties of null (reading '' @ quoted k @ '')''))
      else Inr (field v k))"

text \<open>A value inside a template literal: a string is spliced in as it is.\<close>

fun template_string :: "(json \<Rightarrow> string option) \<Rightarrow> jsval \<Rightarrow> js_error + string" where
  "template_string tostr None = Inr ''undefined''"
| "template_string tostr (Some (JStr s)) = Inr s"
| "template_string tostr (Some v) =
     (case tostr v of
        None \<Rightarrow> Inl (TypeError ''Cannot convert object to primitive value'')
      | Some s \<Rightarrow> Inr s)"

fun template_all :: "(json \<Rightarrow> string option) \<Rightarrow> jsval list \<Rightarrow> js_error + string list" where
  "template_all tostr [] = Inr []"
| "template_all tostr (v # vs) =
     (case template_string tostr v of
        Inl e \<Rightarrow> Inl e
      | Inr s \<Rightarrow> (case template_all tostr vs of Inl e \<Rightarrow> Inl e | Inr ss \<Rightarrow> Inr (s # ss)))"

text \<open>Decimal digits of a number, as a template literal prints \<open>response.status\<close>.\<close>

fun show_nat :: "nat \<Rightarrow> string" where
  "show_nat n =
     (if n < 10 then [''0123456789'' ! n]
      else show_nat (n div 10) @ [''0123456789'' ! (n mod 10)])"

declare show_nat.simps [simp del]

text \<open>\<open>response.ok\<close> of the fetch standard.\<close>

definition resp_ok :: "backend_response \<Rightarrow> bool" where
  "resp_ok r = (200 \<le> resp_status r \<and> resp_status r \<le> 299)"

text \<open>
  \<open>JSON.stringify\<close> of a number, as the value its output denotes: an infinity is written
  \<open>null\<close> and negative zero is written \<open>0\<close>.
\<close>

fun stringify_number :: "js_number \<Rightarrow> json" where
  "stringify_number (Fin q) = JNum (Fin q)"
| "stringify_number NegZero = JNum (Fin 0)"
| "stringify_number PosInfinity = JNull"
| "stringify_number NegInfinity = JNull"

text \<open>
  \<open>JSON.stringify\<close> of a parsed value, as the value its output denotes. Arrays and
  objects are written element by element, in order.
\<close>

fun JSON_stringify :: "json \<Rightarrow> json" where
  "JSON_stringify JNull = JNull"
| "JSON_stringify (JBool b) = JBool b"
| "JSON_stringify (JNum n) = stringify_number n"
| "JSON_stringify (JStr s) = JStr s"
| "JSON_stringify (JArr xs) = JArr (map JSON_stringify xs)"
| "JSON_stringify (JObj kvs) = JObj (map (map_prod id JSON_stringify) kvs)"

text \<open>
  A value that holds no infinity and no negative zero: what \<open>JSON.stringify\<close> writes for
  it denotes the value itself.
\<close>

fun plain :: "json \<Rightarrow> bool" where
  "plain (JNum n) = (case n of Fin q \<Rightarrow> True | _ \<Rightarrow> False)"
| "plain (JArr xs) = (\<forall>x \<in> set xs. plain x)"
| "plain (JObj kvs) = (\<forall>(k, v) \<in> set kvs. plain v)"
| "plain v = True"

text \<open>A property of an object literal: \<open>JSON.stringify\<close> leaves it out when it is \<open>undefined\<close>.\<close>

fun property :: "string \<Rightarrow> jsval \<Rightarrow> (string \<times> json) list" where
  "property k None = []"
| "property k (Some v) = [(k, JSON_stringify v)]"

text \<open>
  An \<open>await\<close>. While the timer is pending, a promise that needs more than the time left
  is cut: the timer fires, it is no longer pending, and \<open>controller.abort()\<close> rejects the
  promise with the abort error. A promise that settles within the time left uses that
  time up.
\<close>

definition await :: "'a awaited \<Rightarrow> handler_state \<Rightarrow> handler_state \<times> (js_error + 'a)" where
  "await p s =
     (case p of After d outcome \<Rightarrow>
        (case pending_timer s of
           None \<Rightarrow> (s, outcome)
         | Some left \<Rightarrow>
             if left < d then (s\<lparr>pending_timer := None\<rparr>, Inl AbortError)
             else (s\<lparr>pending_timer := Some (left - d)\<rparr>, outcome)))"

subsection \<open>Lines 9-27: reading the request and building the outbound body\<close>

text \<open>Line 9: \<open>const { messages, model, baseUrl } = await req.json()\<close>.\<close>

definition destructure :: "json \<Rightarrow> js_error + (jsval \<times> jsval \<times> jsval)" where
  "destructure v =
     (if v = JNull
      then Inl (TypeError (''Cannot destructure property '' @ quoted ''messages'' @ '' of ''
                  @ quoted ''(intermediate value)'' @ '' as it is null.''))
      else Inr (field v ''messages'', field v ''model'', field v ''baseUrl''))"

text \<open>Line 11: \<open>baseUrl || process.env.OLLAMA_URL || 'http://localhost:11434'\<close>.\<close>

definition env_or_default :: "string option \<Rightarrow> json" where
  "env_or_default env =
     (case env of
        Some e \<Rightarrow> if e \<noteq> [] then JStr e else JStr ''http://localhost:11434''
      | None \<Rightarrow> JStr ''http://localhost:11434'')"

definition ollamaUrl_of :: "jsval \<Rightarrow> string option \<Rightarrow> json" where
  "ollamaUrl_of baseUrl env =
     (case baseUrl of
        Some b \<Rightarrow> if truthy b then b else env_or_default env
      | None \<Rightarrow> env_or_default env)"

text \<open>
  Line 13, the one diagnostic whose evaluation can throw: with \<open>DEBUG_OLLAMA\<close> set to
  \<open>1\<close> the template literal converts \<open>model\<close> and then \<open>ollamaUrl\<close> to strings. The other
  diagnostics print values that always convert and are left out.
\<close>

definition debug_log :: "world \<Rightarrow> jsval list \<Rightarrow> js_error + unit" where
  "debug_log w vs =
     (if env_DEBUG_OLLAMA w = Some ''1''
      then (case template_all (ToString w) vs of Inl e \<Rightarrow> Inl e | Inr ss \<Rightarrow> Inr ())
      else Inr ())"

text \<open>Lines 16-19: \<open>messages.map(msg => ({ role: msg.role, content: msg.content }))\<close>.\<close>

fun map_messages :: "json list \<Rightarrow> js_error + (jsval \<times> jsval) list" where
  "map_messages [] = Inr []"
| "map_messages (msg # msgs) =
     (case get_prop msg ''role'' of
        Inl e \<Rightarrow> Inl e
      | Inr role \<Rightarrow>
          (case get_prop msg ''content'' of
             Inl e \<Rightarrow> Inl e
           | Inr content \<Rightarrow>
               (case map_messages msgs of
                  Inl e \<Rightarrow> Inl e
                | Inr rest \<Rightarrow> Inr ((role, content) # rest))))"

fun convert_messages :: "jsval \<Rightarrow> js_error + (jsval \<times> jsval) list" where
  "convert_messages (Some (JArr msgs)) = map_messages msgs"
| "convert_messages None =
     Inl (TypeError (''Cannot read properties of undefined (reading '' @ quoted ''map'' @ '')''))"
| "convert_messages (Some JNull) =
     Inl (TypeError (''Cannot read properties of null (reading '' @ quoted ''map'' @ '')''))"
| "convert_messages (Some v) = Inl (TypeError ''messages.map is not a function'')"

definition prepare :: "world \<Rightarrow> js_error + (jsval \<times> json \<times> outbound_request)" where
  "prepare w =
     (case req_json w of
        Inl e \<Rightarrow> Inl e
      | Inr v \<Rightarrow>
          (case destructure v of
             Inl e \<Rightarrow> Inl e
           | Inr (messages, model, baseUrl) \<Rightarrow>
               let ollamaUrl = ollamaUrl_of baseUrl (env_OLLAMA_URL w) in
               (case debug_log w [model, Some ollamaUrl] of
                  Inl e \<Rightarrow> Inl e
                | Inr u \<Rightarrow>
                    (case convert_messages messages of
                       Inl e \<Rightarrow> Inl e
                     | Inr ollamaMessages \<Rightarrow>
                         Inr (model, ollamaUrl,
                              \<lparr>rb_model = model, rb_messages = ollamaMessages,
                               rb_stream = False\<rparr>)))))"

text \<open>
  Line 40: \<open>JSON.stringify(requestBody)\<close>, as the value the text sent denotes. A message
  is the object literal \<open>{ role: msg.role, content: msg.content }\<close> of lines 16-19.
\<close>

definition stringify_request :: "outbound_request \<Rightarrow> json" where
  "stringify_request requestBody =
     JObj (property ''model'' (rb_model requestBody)
           @ [(''messages'',
               JArr (map (\<lambda>(role, content).
                            JObj (property ''role'' role @ property ''content'' content))
                         (rb_messages requestBody))),
              (''stream'', JBool (rb_stream requestBody))])"

subsection \<open>Lines 46-55: the backend answered with a status outside 200-299\<close>

definition backend_error_response :: "backend_response \<Rightarrow> string \<Rightarrow> http_response" where
  "backend_error_response response errorText =
     \<lparr>http_status = 502,
      http_body = JSON_stringify (JObj
        [(''error'', JStr (''Ollama API error: '' @ show_nat (resp_status response) @ '' ''
                            @ resp_statusText response)),
         (''details'', JStr errorText),
         (''provider'', JStr ''ollama''),
         (''code'', JNum (Fin (of_nat (resp_status response))))])\<rparr>"

subsection \<open>Lines 57-95: normalising a parsed body\<close>

definition placeholder :: json where
  "placeholder = JStr ''No response from Ollama''"

text \<open>Lines 64-68, the \<open>else if (data.response) ... else ...\<close> part.\<close>

definition text_from_response :: "json \<Rightarrow> json" where
  "text_from_response data =
     (case field data ''response'' of
        Some r \<Rightarrow> if truthy r then r else placeholder
      | None \<Rightarrow> placeholder)"

text \<open>Lines 61-68. \<open>data.message\<close> throws when \<open>data\<close> is \<open>null\<close>.\<close>

definition extract_text :: "json \<Rightarrow> js_error + json" where
  "extract_text data =
     (case get_prop data ''message'' of
        Inl e \<Rightarrow> Inl e
      | Inr None \<Rightarrow> Inr (text_from_response data)
      | Inr (Some message) \<Rightarrow>
          if truthy message
          then (case field message ''content'' of
                  Some content \<Rightarrow>
                    if truthy content then Inr content else Inr (text_from_response data)
                | None \<Rightarrow> Inr (text_from_response data))
          else Inr (text_from_response data))"

text \<open>Lines 71-81.\<close>

definition model_list :: "json \<Rightarrow> json list" where
  "model_list data =
     (case data of
        JArr xs \<Rightarrow> xs
      | JObj kvs \<Rightarrow>
          (case map_of kvs ''models'' of
             Some (JArr xs) \<Rightarrow> xs
           | _ \<Rightarrow> (case map_of kvs ''data'' of Some (JArr ys) \<Rightarrow> ys | _ \<Rightarrow> []))
      | _ \<Rightarrow> [])"

text \<open>Line 84: \<open>model.toLowerCase()\<close>.\<close>

fun lower_model :: "(string \<Rightarrow> string) \<Rightarrow> jsval \<Rightarrow> js_error + string" where
  "lower_model lc (Some (JStr m)) = Inr (lc m)"
| "lower_model lc None =
     Inl (TypeError (''Cannot read properties of undefined (reading '' @ quoted ''toLowerCase''
            @ '')''))"
| "lower_model lc (Some JNull) =
     Inl (TypeError (''Cannot read properties of null (reading '' @ quoted ''toLowerCase''
            @ '')''))"
| "lower_model lc (Some v) = Inl (TypeError ''model.toLowerCase is not a function'')"

text \<open>Line 85, the predicate of \<open>find\<close>: \<open>m && typeof m.name === 'string' && m.name === slug\<close>.\<close>

definition is_match :: "string \<Rightarrow> json \<Rightarrow> bool" where
  "is_match slug m = (truthy m \<and> field m ''name'' = Some (JStr slug))"

text \<open>Line 90: \<open>.map(m => m.name)\<close>, which throws at an entry that is \<open>null\<close>.\<close>

fun map_names :: "json list \<Rightarrow> js_error + jsval list" where
  "map_names [] = Inr []"
| "map_names (m # ms) =
     (case get_prop m ''name'' of
        Inl e \<Rightarrow> Inl e
      | Inr n \<Rightarrow> (case map_names ms of Inl e \<Rightarrow> Inl e | Inr ns \<Rightarrow> Inr (n # ns)))"

text \<open>Line 91: \<open>.filter(name => typeof name === 'string')\<close>.\<close>

fun filter_strings :: "jsval list \<Rightarrow> string list" where
  "filter_strings [] = []"
| "filter_strings (Some (JStr s) # ns) = s # filter_strings ns"
| "filter_strings (n # ns) = filter_strings ns"

text \<open>
  Line 95: \<open>Response.json({ text, raw: data })\<close>, which serialises the object with
  \<open>JSON.stringify\<close>.
\<close>

definition ok_response :: "json \<Rightarrow> json \<Rightarrow> http_response" where
  "ok_response text data =
     \<lparr>http_status = 200,
      http_body = JSON_stringify (JObj [(''text'', text), (''raw'', data)])\<rparr>"

definition normalize ::
  "world \<Rightarrow> jsval \<Rightarrow> json \<Rightarrow> handler_state \<Rightarrow> handler_state \<times> (js_error + http_response)" where
  "normalize w model data s =
     (case extract_text data of
        Inl e \<Rightarrow> (s, Inl e)
      | Inr text \<Rightarrow>
          let modelList = model_list data in
          (case lower_model (toLowerCase w) model of
             Inl e \<Rightarrow> (s, Inl e)
           | Inr slug \<Rightarrow>
               let found = find (is_match slug) modelList in
               if found = None \<and> length modelList > 0
               then (case map_names modelList of
                       Inl e \<Rightarrow> (s, Inl e)
                     | Inr names \<Rightarrow>
                         (s\<lparr>response_availableModels := Some (take 10 (filter_strings names))\<rparr>,
                          Inr (ok_response text data)))
               else (s, Inr (ok_response text data))))"

subsection \<open>The handler\<close>

text \<open>Lines 46-95: what is done with the object \<open>response\<close> that \<open>fetch\<close> resolved to.\<close>

definition handle_response ::
  "world \<Rightarrow> jsval \<Rightarrow> backend_response \<Rightarrow> handler_state
     \<Rightarrow> handler_state \<times> (js_error + http_response)" where
  "handle_response w model response s =
     (if \<not> resp_ok response
      then (case await (resp_text response) s of
              (s', Inl e) \<Rightarrow> (s', Inl e)
            | (s', Inr errorText) \<Rightarrow> (s', Inr (backend_error_response response errorText)))
      else (case await (resp_json response) s of
              (s', Inl e) \<Rightarrow> (s', Inl e)
            | (s', Inr data) \<Rightarrow> normalize w model data s'))"

text \<open>Lines 29-42: the timer is armed, the URL is built, the call is issued and awaited.\<close>

definition exchange ::
  "world \<Rightarrow> jsval \<Rightarrow> json \<Rightarrow> outbound_request \<Rightarrow> handler_state
     \<Rightarrow> handler_state \<times> (js_error + http_response)" where
  "exchange w model ollamaUrl requestBody s0 =
     (let s1 = s0\<lparr>timeoutId := Some 45000, pending_timer := Some 45000\<rparr> in
      case template_string (ToString w) (Some ollamaUrl) of
        Inl e \<Rightarrow> (s1, Inl e)
      | Inr base \<Rightarrow>
          let url = base @ ''/api/chat'';
              body = stringify_request requestBody;
              s2 = s1\<lparr>fetch_calls := fetch_calls s1 @ [(url, body)]\<rparr>
          in (case await (fetch w url body) s2 of
                (s3, Inl e) \<Rightarrow> (s3, Inl e)
              | (s3, Inr response) \<Rightarrow> handle_response w model response s3))"

text \<open>The \<open>try\<close> block, lines 9-95.\<close>

definition try_block :: "world \<Rightarrow> handler_state \<Rightarrow> handler_state \<times> (js_error + http_response)" where
  "try_block w s =
     (case prepare w of
        Inl e \<Rightarrow> (s, Inl e)
      | Inr (model, ollamaUrl, requestBody) \<Rightarrow> exchange w model ollamaUrl requestBody s)"

text \<open>The \<open>catch\<close> block, lines 96-104, and the two responses it builds.\<close>

definition timeout_response :: http_response where
  "timeout_response =
     \<lparr>http_status = 504,
      http_body = JSON_stringify (JObj [(''error'', JStr ''Ollama request timed out''),
                        (''provider'', JStr ''ollama''), (''code'', JNum (Fin 504))])\<rparr>"

definition failure_response :: "string \<Rightarrow> http_response" where
  "failure_response message =
     \<lparr>http_status = 500,
      http_body = JSON_stringify
        (JObj [(''error'', JStr message), (''provider'', JStr ''ollama'')])\<rparr>"

definition catch_block :: "js_error \<Rightarrow> http_response" where
  "catch_block err =
     (if err_name err = ''AbortError'' then timeout_response
      else let message = (if err_message err \<noteq> [] then err_message err else ''Unknown error'')
           in failure_response message)"

text \<open>The \<open>finally\<close> block, lines 105-110.\<close>

definition finally_block :: "handler_state \<Rightarrow> handler_state" where
  "finally_block s = (if timeoutId s \<noteq> None then s\<lparr>pending_timer := None\<rparr> else s)"

text \<open>The handler: the response it returns and the state it leaves.\<close>

definition POST :: "world \<Rightarrow> http_response \<times> handler_state" where
  "POST w =
     (case try_block w initial_state of
        (s, Inr resp) \<Rightarrow> (resp, finally_block s)
      | (s, Inl e) \<Rightarrow> (catch_block e, finally_block s))"

text \<open>
  The outbound call the handler issues for a world, if it gets that far: the URL and the
  body passed to \<open>fetch\<close>.
\<close>

definition outbound_call :: "world \<Rightarrow> (string \<times> json) option" where
  "outbound_call w =
     (case prepare w of
        Inl e \<Rightarrow> None
      | Inr (model, ollamaUrl, requestBody) \<Rightarrow>
          (case template_string (ToString w) (Some ollamaUrl) of
             Inl e \<Rightarrow> None
           | Inr base \<Rightarrow> Some (base @ ''/api/chat'', stringify_request requestBody)))"

text \<open>The milliseconds a promise needs to settle.\<close>

fun took :: "'a awaited \<Rightarrow> nat" where
  "took (After d outcome) = d"

text \<open>
  The outbound exchange does not complete within the 45 seconds: \<open>fetch\<close> needs more than
  45000 milliseconds, or it resolves in time and reading the body of the response (as
  text for a status outside 200-299, as JSON otherwise) needs more than what is left.
\<close>

definition deadline_exceeded :: "world \<Rightarrow> bool" where
  "deadline_exceeded w =
     (case outbound_call w of
        None \<Rightarrow> False
      | Some (url, body) \<Rightarrow>
          (case fetch w url body of
             After d outcome \<Rightarrow>
               if 45000 < d then True
               else (case outcome of
                       Inl e \<Rightarrow> False
                     | Inr response \<Rightarrow>
                         45000 - d < (if \<not> resp_ok response then took (resp_text response)
                                      else took (resp_json response)))))"

subsection \<open>Concrete requests and backends\<close>

text \<open>A well-typed \<open>ChatMessage\<close> and a request body as section 6 of the specification gives it.\<close>

definition chat_message :: "string \<Rightarrow> string \<Rightarrow> json" where
  "chat_message r c = JObj [(''role'', JStr r), (''content'', JStr c)]"

definition request_of :: "json list \<Rightarrow> json \<Rightarrow> json" where
  "request_of ms m = JObj [(''messages'', JArr ms), (''model'', m)]"

definition ascii_lower :: "char \<Rightarrow> char" where
  "ascii_lower c =
     (case map_of (zip ''ABCDEFGHIJKLMNOPQRSTUVWXYZ'' ''abcdefghijklmnopqrstuvwxyz'') c of
        Some l \<Rightarrow> l
      | None \<Rightarrow> c)"

definition reply ::
  "nat \<Rightarrow> string \<Rightarrow> string awaited \<Rightarrow> json awaited \<Rightarrow> backend_response" where
  "reply st stt body parsed =
     \<lparr>resp_status = st, resp_statusText = stt, resp_text = body, resp_json = parsed\<rparr>"

text \<open>
  A backend that answers 200 after 120 milliseconds with a body that parses to \<open>data\<close>
  within 5 more, and one that answers with an error status and a body text.
\<close>

definition json_reply :: "json \<Rightarrow> backend_response awaited" where
  "json_reply data = After 120 (Inr (reply 200 ''OK'' (After 5 (Inr [])) (After 5 (Inr data))))"

definition error_reply :: "nat \<Rightarrow> string \<Rightarrow> string \<Rightarrow> backend_response awaited" where
  "error_reply st stt body =
     After 120 (Inr (reply st stt (After 5 (Inr body))
                       (After 5 (Inl (JsError ''SyntaxError'' ''Unexpected token'')))))"

text \<open>
  A world with diagnostics off, in which the number 123 converts to \<open>123\<close> inside a
  template literal and no other value does, strings are ASCII, and the backend gives the
  same outcome to every call.
\<close>

definition example_world ::
  "string option \<Rightarrow> js_error + json \<Rightarrow> backend_response awaited \<Rightarrow> world" where
  "example_world env rq out =
     \<lparr>env_OLLAMA_URL = env, env_DEBUG_OLLAMA = None, req_json = rq,
      ToString = (\<lambda>v. if v = JNum (Fin 123) then Some ''123'' else None),
      toLowerCase = map ascii_lower, fetch = (\<lambda>url body. out)\<rparr>"

definition hi_request :: "json \<Rightarrow> json" where
  "hi_request m = request_of [chat_message ''user'' ''hi''] m"

text \<open>The request body that \<open>hi_request m\<close> is turned into.\<close>

definition hi_body :: "json \<Rightarrow> json" where
  "hi_body m =
     JObj [(''model'', JSON_stringify m), (''messages'', JArr [chat_message ''user'' ''hi'']),
           (''stream'', JBool False)]"

definition models_body :: json where
  "models_body =
     JObj [(''models'', JArr [JObj [(''name'', JStr ''llama3'')],
                             JObj [(''name'', JStr ''mistral'')],
                             JObj [(''foo'', JStr ''bar'')]])]"

definition models_world :: world where
  "models_world = example_world None (Inr (hi_request (JStr ''phi''))) (json_reply models_body)"

definition hello_body :: json where
  "hello_body = JObj [(''message'', JObj [(''content'', JStr ''hello there'')])]"

definition hello_world :: world where
  "hello_world = example_world None (Inr (hi_request (JStr ''llama3''))) (json_reply hello_body)"








definition not_found_world :: world where
  "not_found_world =
     example_world None (Inr (hi_request (JStr ''llama3'')))
       (error_reply 404 ''Not Found'' ''model not found'')"

text \<open>A 404 whose headers arrive after 44 seconds and whose body needs 2 more.\<close>

definition late_body_world :: world where
  "late_body_world =
     example_world None (Inr (hi_request (JStr ''llama3'')))
       (After 44000 (Inr (reply 404 ''Not Found'' (After 2000 (Inr ''model not found''))
                            (After 2000 (Inl (JsError ''SyntaxError'' ''Unexpected token''))))))"

text \<open>A 404 whose body cannot be read.\<close>

definition broken_body_world :: world where
  "broken_body_world =
     example_world None (Inr (hi_request (JStr ''llama3'')))
       (After 120 (Inr (reply 404 ''Not Found'' (After 5 (Inl (JsError ''TypeError'' ''terminated'')))
                          (After 5 (Inl (JsError ''TypeError'' ''terminated''))))))"

definition slow_world :: world where
  "slow_world =
     example_world None (Inr (hi_request (JStr ''llama3'')))
       (After 60000 (Inr (reply 200 ''OK'' (After 5 (Inr [])) (After 5 (Inr hello_body)))))"

definition malformed_body_world :: world where
  "malformed_body_world =
     example_world None (Inr (hi_request (JStr ''llama3'')))
       (After 120 (Inr (reply 200 ''OK'' (After 5 (Inr ''<html>''))
                          (After 5 (Inl (JsError ''SyntaxError'' ''Unexpected token''))))))"

definition baseUrl_request :: "json \<Rightarrow> json" where
  "baseUrl_request b =
     JObj [(''messages'', JArr [chat_message ''user'' ''hi'']), (''model'', JStr ''llama3''),
           (''baseUrl'', b)]"

definition empty_baseUrl_world :: world where
  "empty_baseUrl_world =
     example_world (Some ''http://gpu-box:11434'') (Inr (baseUrl_request (JStr [])))
       (json_reply hello_body)"

definition custom_baseUrl_world :: world where
  "custom_baseUrl_world =
     example_world (Some ''http://gpu-box:11434'')
       (Inr (baseUrl_request (JStr ''http://10.0.0.5:11434''))) (json_reply hello_body)"

definition numeric_baseUrl_world :: world where
  "numeric_baseUrl_world =
     example_world (Some ''http://gpu-box:11434'') (Inr (baseUrl_request (JNum (Fin 123))))
       (json_reply hello_body)"

definition big_number_body :: json where
  "big_number_body = JObj [(''response'', JStr ''ok''), (''eval_count'', JNum PosInfinity)]"

definition big_number_world :: world where
  "big_number_world =
     example_world None (Inr (hi_request (JStr ''llama3''))) (json_reply big_number_body)"

definition infinite_message_world :: world where
  "infinite_message_world =
     example_world None
       (Inr (request_of [JObj [(''role'', JStr ''user''), (''content'', JNum PosInfinity)]]
               (JStr ''llama3'')))
       (json_reply hello_body)"

definition refused_world :: world where
  "refused_world =
     example_world None (Inr (hi_request (JStr ''llama3'')))
       (After 3 (Inl (JsError ''TypeError'' ''fetch failed'')))"

definition silent_failure_world :: world where
  "silent_failure_world =
     example_world None (Inr (hi_request (JStr ''llama3''))) (After 3 (Inl (JsError ''Error'' [])))"

definition numeric_model_world :: world where
  "numeric_model_world =
     example_world None (Inr (hi_request (JNum (Fin 5))))
       (error_reply 400 ''Bad Request'' ''invalid model'')"

definition numeric_model_ok_world :: world where
  "numeric_model_ok_world =
     example_world None (Inr (hi_request (JNum (Fin 5)))) (json_reply hello_body)"

definition numeric_model_slow_world :: world where
  "numeric_model_slow_world =
     example_world None (Inr (hi_request (JNum (Fin 5))))
       (After 60000 (Inr (reply 200 ''OK'' (After 5 (Inr [])) (After 5 (Inr hello_body)))))"

text \<open>A request with a number as model and no messages at all.\<close>

definition numeric_model_only_world :: world where
  "numeric_model_only_world =
     example_world None (Inr (JObj [(''model'', JNum (Fin 5))])) (json_reply hello_body)"

definition invalid_json_world :: world where
  "invalid_json_world =
     example_world None (Inl (JsError ''SyntaxError'' ''Unexpected end of JSON input''))
       (json_reply hello_body)"

definition no_messages_world :: world where
  "no_messages_world =
     example_world None (Inr (JObj [(''messages'', JStr ''hi''), (''model'', JStr ''llama3'')]))
       (json_reply hello_body)"

section \<open>Properties of the handler\<close>

subsection \<open>How the state moves\<close>

lemma await_After:
  "pending_timer s = Some left \<Longrightarrow>
     await (After d x) s =
       (if left < d then (s\<lparr>pending_timer := None\<rparr>, Inl AbortError)
        else (s\<lparr>pending_timer := Some (left - d)\<rparr>, x))"
  by (simp add: await_def)

lemma await_keeps [simp]:
  "timeoutId (fst (await p s)) = timeoutId s"
  "fetch_calls (fst (await p s)) = fetch_calls s"
  by (cases p; cases "pending_timer s"; simp add: await_def)+

lemma normalize_keeps [simp]:
  "timeoutId (fst (normalize w model data s)) = timeoutId s"
  "fetch_calls (fst (normalize w model data s)) = fetch_calls s"
  by (simp_all add: normalize_def Let_def split: sum.splits)

lemma normalize_snd:
  "snd (normalize w model data s) = snd (normalize w model data initial_state)"
  by (simp add: normalize_def Let_def split: sum.splits)

lemma handle_response_keeps [simp]:
  "timeoutId (fst (handle_response w model r s)) = timeoutId s"
  "fetch_calls (fst (handle_response w model r s)) = fetch_calls s"
proof -
  obtain d2 y where t: "resp_text r = After d2 y" by (cases "resp_text r") auto
  obtain d3 z where j: "resp_json r = After d3 z" by (cases "resp_json r") auto
  show "timeoutId (fst (handle_response w model r s)) = timeoutId s"
    by (cases "pending_timer s"; cases y; cases z; simp add: handle_response_def await_def t j)
  show "fetch_calls (fst (handle_response w model r s)) = fetch_calls s"
    by (cases "pending_timer s"; cases y; cases z; simp add: handle_response_def await_def t j)
qed

lemma handle_response_snd:
  assumes "pending_timer s = Some left"
  shows "snd (handle_response w model r s) =
     (if \<not> resp_ok r
      then (case resp_text r of After d2 y \<Rightarrow>
              if left < d2 then Inl AbortError
              else (case y of Inl e \<Rightarrow> Inl e | Inr t \<Rightarrow> Inr (backend_error_response r t)))
      else (case resp_json r of After d2 y \<Rightarrow>
              if left < d2 then Inl AbortError
              else (case y of
                      Inl e \<Rightarrow> Inl e
                    | Inr data \<Rightarrow> snd (normalize w model data initial_state))))"
proof -
  obtain d2 y where t: "resp_text r = After d2 y" by (cases "resp_text r") auto
  obtain d3 z where j: "resp_json r = After d3 z" by (cases "resp_json r") auto
  show ?thesis
    by (cases y; cases z;
        simp add: handle_response_def await_After [OF assms] t j
          normalize_snd [of w model _ "s\<lparr>pending_timer := Some (left - d3)\<rparr>"])
qed

subsection \<open>The request and the outbound body\<close>

lemma map_messages_Inr:
  "map_messages ms = Inr xs \<Longrightarrow> xs = map (\<lambda>msg. (field msg ''role'', field msg ''content'')) ms"
  by (induction ms arbitrary: xs) (auto simp: get_prop_def split: sum.splits if_splits)

lemma map_messages_total: "JNull \<notin> set ms \<Longrightarrow> \<exists>xs. map_messages ms = Inr xs"
  by (induction ms) (auto simp: get_prop_def)

lemma convert_messages_Inr:
  assumes "convert_messages v = Inr xs"
  obtains ms where "v = Some (JArr ms)" and "map_messages ms = Inr xs"
  using assms by (cases v rule: convert_messages.cases) simp_all

lemma prepareD:
  assumes "prepare w = Inr (model, ollamaUrl, rb)"
  obtains rq ms where "req_json w = Inr rq" and "rq \<noteq> JNull"
    and "field rq ''messages'' = Some (JArr ms)"
    and "model = field rq ''model''"
    and "ollamaUrl = ollamaUrl_of (field rq ''baseUrl'') (env_OLLAMA_URL w)"
    and "rb_model rb = model"
    and "rb_messages rb = map (\<lambda>msg. (field msg ''role'', field msg ''content'')) ms"
    and "rb_stream rb = False"
proof -
  from assms obtain rq where rq: "req_json w = Inr rq"
    by (auto simp: prepare_def split: sum.splits)
  from assms rq have nn: "rq \<noteq> JNull"
    by (auto simp: prepare_def destructure_def split: sum.splits if_splits)
  from assms rq nn obtain xs where
    conv: "convert_messages (field rq ''messages'') = Inr xs"
    and m: "model = field rq ''model''"
    and u: "ollamaUrl = ollamaUrl_of (field rq ''baseUrl'') (env_OLLAMA_URL w)"
    and rb: "rb = \<lparr>rb_model = model, rb_messages = xs, rb_stream = False\<rparr>"
    by (auto simp: prepare_def destructure_def Let_def split: sum.splits)
  from conv obtain ms where "field rq ''messages'' = Some (JArr ms)" and "map_messages ms = Inr xs"
    by (rule convert_messages_Inr)
  with rq nn m u rb that show thesis
    by (simp add: map_messages_Inr)
qed

lemma outbound_callD:
  assumes "outbound_call w = Some (url, body)"
  obtains rq ms model ollamaUrl rb base where "req_json w = Inr rq"
    and "field rq ''messages'' = Some (JArr ms)"
    and "prepare w = Inr (model, ollamaUrl, rb)"
    and "model = field rq ''model''"
    and "ollamaUrl = ollamaUrl_of (field rq ''baseUrl'') (env_OLLAMA_URL w)"
    and "template_string (ToString w) (Some ollamaUrl) = Inr base"
    and "url = base @ ''/api/chat''"
    and "body = stringify_request rb"
    and "body = JObj (property ''model'' (field rq ''model'')
           @ [(''messages'',
               JArr (map (\<lambda>msg. JObj (property ''role'' (field msg ''role'')
                                      @ property ''content'' (field msg ''content''))) ms)),
              (''stream'', JBool False)])"
proof -
  from assms obtain model ollamaUrl rb base where p: "prepare w = Inr (model, ollamaUrl, rb)"
    and t: "template_string (ToString w) (Some ollamaUrl) = Inr base"
    and u: "url = base @ ''/api/chat''" and b: "body = stringify_request rb"
    by (auto simp: outbound_call_def split: sum.splits prod.splits)
  from p obtain rq ms where rq: "req_json w = Inr rq" "field rq ''messages'' = Some (JArr ms)"
    "model = field rq ''model''"
    "ollamaUrl = ollamaUrl_of (field rq ''baseUrl'') (env_OLLAMA_URL w)"
    and sel: "rb_model rb = model"
    "rb_messages rb = map (\<lambda>msg. (field msg ''role'', field msg ''content'')) ms"
    "rb_stream rb = False"
    by (rule prepareD)
  from b sel rq(3) have "body = JObj (property ''model'' (field rq ''model'')
           @ [(''messages'',
               JArr (map (\<lambda>msg. JObj (property ''role'' (field msg ''role'')
                                      @ property ''content'' (field msg ''content''))) ms)),
              (''stream'', JBool False)])"
    by (simp add: stringify_request_def comp_def)
  with rq p t u b that show thesis by blast
qed

lemma request_forwarded:
  assumes "req_json w = Inr rq" and "rq \<noteq> JNull"
    and "field rq ''messages'' = Some (JArr ms)" and "JNull \<notin> set ms"
    and "env_DEBUG_OLLAMA w \<noteq> Some ''1''"
    and "template_string (ToString w)
           (Some (ollamaUrl_of (field rq ''baseUrl'') (env_OLLAMA_URL w))) = Inr base"
  shows "\<exists>body. outbound_call w = Some (base @ ''/api/chat'', body)"
proof -
  from map_messages_total [OF assms(4)] obtain xs where "map_messages ms = Inr xs" by blast
  with assms(1-3,5,6) show ?thesis
    by (simp add: outbound_call_def prepare_def destructure_def debug_log_def)
qed

lemma field_request_body:
  "field (JObj (property ''model'' m @ [(''messages'', x), (''stream'', y)])) ''stream'' = Some y"
  "field (JObj (property ''model'' m @ [(''messages'', x), (''stream'', y)])) ''messages'' = Some x"
  by (cases m; simp)+

subsection \<open>The outcome of the try block\<close>

lemma try_block_called:
  assumes "outbound_call w = Some (url, body)" and "req_json w = Inr rq"
  shows "try_block w s =
     (case await (fetch w url body)
             (s\<lparr>timeoutId := Some 45000, pending_timer := Some 45000,
                fetch_calls := fetch_calls s @ [(url, body)]\<rparr>) of
        (s3, Inl e) \<Rightarrow> (s3, Inl e)
      | (s3, Inr response) \<Rightarrow> handle_response w (field rq ''model'') response s3)"
  using assms(1)
proof (rule outbound_callD)
  fix rq' ms model ollamaUrl rb base
  assume "req_json w = Inr rq'" and "prepare w = Inr (model, ollamaUrl, rb)"
    and "model = field rq' ''model''"
    and "template_string (ToString w) (Some ollamaUrl) = Inr base"
    and "url = base @ ''/api/chat''" and "body = stringify_request rb"
  with assms(2) show ?thesis
    by (simp add: try_block_def exchange_def Let_def)
qed

lemma try_block_outcome:
  assumes "outbound_call w = Some (url, body)" and "req_json w = Inr rq"
    and "fetch w url body = After d x"
  shows "snd (try_block w s) =
     (if 45000 < d then Inl AbortError
      else (case x of
              Inl e \<Rightarrow> Inl e
            | Inr r \<Rightarrow>
                if \<not> resp_ok r
                then (case resp_text r of After d2 y \<Rightarrow>
                        if 45000 - d < d2 then Inl AbortError
                        else (case y of
                                Inl e \<Rightarrow> Inl e
                              | Inr t \<Rightarrow> Inr (backend_error_response r t)))
                else (case resp_json r of After d2 y \<Rightarrow>
                        if 45000 - d < d2 then Inl AbortError
                        else (case y of
                                Inl e \<Rightarrow> Inl e
                              | Inr data \<Rightarrow>
                                  snd (normalize w (field rq ''model'') data initial_state)))))"
proof (cases "45000 < d")
  case True
  then show ?thesis
    by (simp add: try_block_called [OF assms(1,2)] assms(3) await_def)
next
  case False
  show ?thesis
  proof (cases x)
    case (Inl e)
    with False show ?thesis
      by (simp add: try_block_called [OF assms(1,2)] assms(3) await_def)
  next
    case (Inr r)
    let ?s = "s\<lparr>timeoutId := Some 45000, fetch_calls := fetch_calls s @ [(url, body)],
                pending_timer := Some (45000 - d)\<rparr>"
    have p: "pending_timer ?s = Some (45000 - d)" by simp
    from False Inr have "try_block w s = handle_response w (field rq ''model'') r ?s"
      by (simp add: try_block_called [OF assms(1,2)] assms(3) await_def)
    with False Inr show ?thesis
      by (simp add: handle_response_snd [OF p])
  qed
qed

lemma try_block_called_state:
  assumes "outbound_call w = Some (url, body)"
  shows "timeoutId (fst (try_block w s)) = Some 45000"
    and "fetch_calls (fst (try_block w s)) = fetch_calls s @ [(url, body)]"
proof -
  from assms obtain rq where rq: "req_json w = Inr rq" by (rule outbound_callD)
  obtain d x where f: "fetch w url body = After d x" by (cases "fetch w url body") auto
  show "timeoutId (fst (try_block w s)) = Some 45000"
    by (cases x; simp add: try_block_called [OF assms rq] f await_def)
  show "fetch_calls (fst (try_block w s)) = fetch_calls s @ [(url, body)]"
    by (cases x; simp add: try_block_called [OF assms rq] f await_def)
qed

lemma try_block_not_called:
  assumes "outbound_call w = None"
  shows "\<exists>e. snd (try_block w s) = Inl e"
    and "fetch_calls (fst (try_block w s)) = fetch_calls s"
    and "timeoutId (fst (try_block w s)) = None \<longrightarrow> fst (try_block w s) = s"
  using assms
  by (auto simp: outbound_call_def try_block_def exchange_def Let_def split: sum.splits prod.splits)

lemma try_block_prepare_Inl:
  "prepare w = Inl e \<Longrightarrow> try_block w s = (s, Inl e)"
  by (simp add: try_block_def)

lemma outbound_call_prepare_Inl: "prepare w = Inl e \<Longrightarrow> outbound_call w = None"
  by (simp add: outbound_call_def)

lemma POST_fst:
  "fst (POST w) =
     (case snd (try_block w initial_state) of Inr resp \<Rightarrow> resp | Inl e \<Rightarrow> catch_block e)"
  by (simp add: POST_def split: prod.splits sum.splits)

lemma POST_snd: "snd (POST w) = finally_block (fst (try_block w initial_state))"
  by (simp add: POST_def split: prod.splits sum.splits)

lemma POST_calls:
  "fetch_calls (snd (POST w)) = (case outbound_call w of None \<Rightarrow> [] | Some c \<Rightarrow> [c])"
proof (cases "outbound_call w")
  case None
  then show ?thesis
    by (simp add: POST_snd finally_block_def try_block_not_called(2) initial_state_def)
next
  case (Some c)
  then obtain url body where "outbound_call w = Some (url, body)" and "c = (url, body)"
    by (cases c) simp
  then show ?thesis
    by (simp add: POST_snd finally_block_def try_block_called_state initial_state_def)
qed

lemma POST_prepare_Inl:
  assumes "prepare w = Inl e"
  shows "fst (POST w) = catch_block e" and "fetch_calls (snd (POST w)) = []"
  using assms
  by (simp_all add: POST_fst POST_calls try_block_prepare_Inl outbound_call_prepare_Inl)

lemma POST_parsed_body:
  assumes "outbound_call w = Some (url, body)" and "req_json w = Inr rq"
    and "fetch w url body = After d (Inr r)" and "d \<le> 45000"
    and "resp_ok r" and "resp_json r = After d2 (Inr data)" and "d2 \<le> 45000 - d"
  shows "fst (POST w) =
     (case snd (normalize w (field rq ''model'') data initial_state) of
        Inr resp \<Rightarrow> resp
      | Inl e \<Rightarrow> catch_block e)"
  using assms(4-7)
  by (simp add: POST_fst try_block_outcome [OF assms(1-3)])

subsection \<open>Serialisation and the responses\<close>

lemma JSON_stringify_plain: "plain v \<Longrightarrow> JSON_stringify v = v"
proof (induction v rule: JSON_stringify.induct)
  case (3 n)
  then show ?case by (cases n) simp_all
next
  case (5 xs)
  then show ?case by (simp add: map_idI)
next
  case (6 kvs)
  then have "\<And>kv. kv \<in> set kvs \<Longrightarrow> map_prod id JSON_stringify kv = kv"
    by (auto simp: map_prod_def split: prod.splits)
  then show ?case by (simp add: map_idI)
qed simp_all

lemma ok_response_fields [simp]:
  "http_status (ok_response tx data) = 200"
  "field (http_body (ok_response tx data)) ''text'' = Some (JSON_stringify tx)"
  "field (http_body (ok_response tx data)) ''raw'' = Some (JSON_stringify data)"
  "field (http_body (ok_response tx data)) ''availableModels'' = None"
  by (simp_all add: ok_response_def)

lemma failure_response_fields [simp]:
  "http_status (failure_response m) = 500"
  "field (http_body (failure_response m)) ''error'' = Some (JStr m)"
  "field (http_body (failure_response m)) ''provider'' = Some (JStr ''ollama'')"
  "field (http_body (failure_response m)) ''availableModels'' = None"
  by (simp_all add: failure_response_def)

lemma timeout_response_fields [simp]:
  "http_status timeout_response = 504"
  "field (http_body timeout_response) ''error'' = Some (JStr ''Ollama request timed out'')"
  "field (http_body timeout_response) ''provider'' = Some (JStr ''ollama'')"
  "field (http_body timeout_response) ''availableModels'' = None"
  by (simp_all add: timeout_response_def)

lemma backend_error_response_fields [simp]:
  "http_status (backend_error_response r t) = 502"
  "field (http_body (backend_error_response r t)) ''details'' = Some (JStr t)"
  "field (http_body (backend_error_response r t)) ''code'' =
     Some (JNum (Fin (of_nat (resp_status r))))"
  "field (http_body (backend_error_response r t)) ''provider'' = Some (JStr ''ollama'')"
  "field (http_body (backend_error_response r t)) ''availableModels'' = None"
  by (simp_all add: backend_error_response_def)

subsection \<open>Errors raised by the steps of the handler\<close>

lemma template_string_Inl:
  "template_string tostr v = Inl e \<Longrightarrow> err_name e = ''TypeError'' \<and> err_message e \<noteq> []"
  by (cases "(tostr, v)" rule: template_string.cases)
    (auto simp: TypeError_def split: option.splits)

lemma template_all_Inl:
  "template_all tostr vs = Inl e \<Longrightarrow> err_name e = ''TypeError'' \<and> err_message e \<noteq> []"
  by (induction vs arbitrary: e) (auto split: sum.splits dest: template_string_Inl)

lemma get_prop_Inl:
  "get_prop v k = Inl e \<Longrightarrow> err_name e = ''TypeError'' \<and> err_message e \<noteq> [] \<and> v = JNull"
  by (auto simp: get_prop_def TypeError_def split: if_splits)

lemma map_messages_Inl:
  "map_messages ms = Inl e \<Longrightarrow> err_name e = ''TypeError'' \<and> err_message e \<noteq> []"
  by (induction ms arbitrary: e) (auto split: sum.splits dest: get_prop_Inl)

lemma convert_messages_Inl:
  "convert_messages v = Inl e \<Longrightarrow> err_name e = ''TypeError'' \<and> err_message e \<noteq> []"
  by (cases v rule: convert_messages.cases) (auto simp: TypeError_def dest: map_messages_Inl)

lemma debug_log_Inl:
  "debug_log w vs = Inl e \<Longrightarrow> err_name e = ''TypeError'' \<and> err_message e \<noteq> []"
  by (cases "template_all (ToString w) vs")
    (auto simp: debug_log_def split: if_splits dest: template_all_Inl)

lemma prepare_Inl:
  assumes "req_json w = Inr rq" and "prepare w = Inl e"
  shows "err_name e = ''TypeError'' \<and> err_message e \<noteq> []"
proof (cases "rq = JNull")
  case True
  with assms show ?thesis
    by (auto simp: prepare_def destructure_def TypeError_def)
next
  case False
  let ?u = "ollamaUrl_of (field rq ''baseUrl'') (env_OLLAMA_URL w)"
  show ?thesis
  proof (cases "debug_log w [field rq ''model'', Some ?u]")
    case (Inl d)
    with assms False have "e = d"
      by (simp add: prepare_def destructure_def)
    with Inl show ?thesis by (simp add: debug_log_Inl)
  next
    case (Inr u)
    with assms False have "convert_messages (field rq ''messages'') = Inl e"
      by (cases "convert_messages (field rq ''messages'')")
        (simp_all add: prepare_def destructure_def)
    then show ?thesis by (rule convert_messages_Inl)
  qed
qed

lemma lower_model_Inl:
  "lower_model lc model = Inl e \<Longrightarrow> err_name e = ''TypeError'' \<and> err_message e \<noteq> []"
  by (cases "(lc, model)" rule: lower_model.cases) (auto simp: TypeError_def)

lemma lower_model_not_string:
  "\<forall>m. model \<noteq> Some (JStr m) \<Longrightarrow> \<exists>e. lower_model lc model = Inl e"
  by (cases "(lc, model)" rule: lower_model.cases) auto

lemma extract_text_Inl:
  "extract_text data = Inl e \<Longrightarrow> err_name e = ''TypeError'' \<and> err_message e \<noteq> []"
  by (auto simp: extract_text_def split: sum.splits option.splits if_splits dest: get_prop_Inl)

lemma normalize_not_string:
  assumes "\<forall>m. model \<noteq> Some (JStr m)"
  shows "\<exists>e. snd (normalize w model data s) = Inl e \<and> err_name e = ''TypeError''
            \<and> err_message e \<noteq> []"
proof (cases "extract_text data")
  case (Inl e)
  then show ?thesis by (auto simp: normalize_def dest: extract_text_Inl)
next
  case (Inr tx)
  from lower_model_not_string [OF assms] obtain e where "lower_model (toLowerCase w) model = Inl e"
    by blast
  with Inr show ?thesis by (auto simp: normalize_def Let_def dest: lower_model_Inl)
qed




lemma catch_block_other:
  "err_name e \<noteq> ''AbortError'' \<Longrightarrow>
     catch_block e = failure_response (if err_message e = [] then ''Unknown error'' else err_message e)"
  by (simp add: catch_block_def Let_def)

lemma catch_block_AbortError: "catch_block AbortError = timeout_response"
  by (simp add: catch_block_def AbortError_def)

lemma catch_block_status: "http_status (catch_block e) = 500 \<or> http_status (catch_block e) = 504"
  by (simp add: catch_block_def Let_def)

lemma catch_block_not_200: "http_status (catch_block e) \<noteq> 200"
  using catch_block_status [of e] by auto

lemma not_called_500:
  assumes "req_json w = Inr rq" and "outbound_call w = None"
  shows "\<exists>e. err_name e = ''TypeError'' \<and> err_message e \<noteq> []
            \<and> fst (POST w) = failure_response (err_message e)"
    and "fetch_calls (snd (POST w)) = []"
proof -
  show "fetch_calls (snd (POST w)) = []" by (simp add: POST_calls assms(2))
  show "\<exists>e. err_name e = ''TypeError'' \<and> err_message e \<noteq> []
            \<and> fst (POST w) = failure_response (err_message e)"
  proof (cases "prepare w")
    case (Inl e)
    from prepare_Inl [OF assms(1) Inl] have t: "err_name e = ''TypeError'' \<and> err_message e \<noteq> []" .
    then have "fst (POST w) = failure_response (err_message e)"
      by (simp add: POST_prepare_Inl(1) [OF Inl] catch_block_other)
    with t show ?thesis by blast
  next
    case (Inr p)
    then obtain model ollamaUrl rb where p: "prepare w = Inr (model, ollamaUrl, rb)"
      by (cases p) auto
    with assms(2) obtain e where t: "template_string (ToString w) (Some ollamaUrl) = Inl e"
      by (cases "template_string (ToString w) (Some ollamaUrl)") (simp_all add: outbound_call_def)
    from template_string_Inl [OF t] have n: "err_name e = ''TypeError'' \<and> err_message e \<noteq> []" .
    from p t have "snd (try_block w initial_state) = Inl e"
      by (simp add: try_block_def exchange_def Let_def)
    with n have "fst (POST w) = failure_response (err_message e)"
      by (simp add: POST_fst catch_block_other)
    with n show ?thesis by blast
  qed
qed

lemma deadline_exceeded_AbortError:
  assumes "deadline_exceeded w"
  shows "snd (try_block w initial_state) = Inl AbortError"
proof -
  from assms obtain url body where call: "outbound_call w = Some (url, body)"
    by (auto simp: deadline_exceeded_def split: option.splits)
  from call obtain rq where rq: "req_json w = Inr rq" by (rule outbound_callD)
  obtain d x where f: "fetch w url body = After d x" by (cases "fetch w url body") auto
  note out = try_block_outcome [OF call rq f, of initial_state]
  show ?thesis
  proof (cases "45000 < d")
    case True
    then show ?thesis by (simp add: out)
  next
    case False
    with assms call f obtain r where x: "x = Inr r"
      and late: "45000 - d < (if \<not> resp_ok r then took (resp_text r) else took (resp_json r))"
      by (cases x) (auto simp: deadline_exceeded_def)
    obtain d2 y where t: "resp_text r = After d2 y" by (cases "resp_text r") auto
    obtain d3 z where j: "resp_json r = After d3 z" by (cases "resp_json r") auto
    from False x late t j show ?thesis by (cases "resp_ok r") (simp_all add: out)
  qed
qed

lemma deadline_exceeded_504:
  "deadline_exceeded w \<Longrightarrow> fst (POST w) = timeout_response"
  by (simp add: POST_fst deadline_exceeded_AbortError catch_block_AbortError)

subsection \<open>Normalising a parsed body\<close>

lemma normalize_Inr:
  assumes "snd (normalize w model data s) = Inr resp"
  obtains tx where "extract_text data = Inr tx" and "resp = ok_response tx data"
  using assms
  by (auto simp: normalize_def Let_def split: sum.splits if_splits)

lemma POST_200D:
  assumes "http_status (fst (POST w)) = 200"
  obtains url body rq d r d2 data tx where "outbound_call w = Some (url, body)"
    and "req_json w = Inr rq"
    and "fetch w url body = After d (Inr r)" and "d \<le> 45000" and "resp_ok r"
    and "resp_json r = After d2 (Inr data)" and "d2 \<le> 45000 - d"
    and "extract_text data = Inr tx" and "fst (POST w) = ok_response tx data"
proof -
  from assms obtain resp where tb: "snd (try_block w initial_state) = Inr resp"
    and resp: "fst (POST w) = resp"
    using catch_block_not_200
    by (cases "snd (try_block w initial_state)") (auto simp: POST_fst)
  from tb obtain url body where call: "outbound_call w = Some (url, body)"
    using try_block_not_called(1) [of w initial_state]
    by (cases "outbound_call w") auto
  from call obtain rq where rq: "req_json w = Inr rq" by (rule outbound_callD)
  obtain d x where f: "fetch w url body = After d x" by (cases "fetch w url body") auto
  note out = try_block_outcome [OF call rq f, of initial_state]
  from tb out have d: "d \<le> 45000" by (cases "45000 < d") (simp_all add: not_less)
  from tb out d obtain r where x: "x = Inr r" by (cases x) (simp_all add: not_less [symmetric])
  obtain d2 y where t: "resp_text r = After d2 y" by (cases "resp_text r") auto
  obtain d3 z where j: "resp_json r = After d3 z" by (cases "resp_json r") auto
  have ok: "resp_ok r"
  proof (rule ccontr)
    assume nok: "\<not> resp_ok r"
    with tb out d x t assms resp show False
      by (cases y; cases "45000 - d < d2") (auto simp: not_less [symmetric])
  qed
  from tb out d x ok j have d3: "d3 \<le> 45000 - d"
    by (cases "45000 - d < d3") (simp_all add: not_less [symmetric])
  from tb out d x ok j d3 obtain data where z: "z = Inr data"
    and n: "snd (normalize w (field rq ''model'') data initial_state) = Inr resp"
    by (cases z) (simp_all add: not_less [symmetric])
  from n obtain tx where "extract_text data = Inr tx" and "resp = ok_response tx data"
    by (rule normalize_Inr)
  with call rq f x d ok j z d3 resp that show thesis by simp
qed




lemma availableModels_never_returned:
  "field (http_body (fst (POST w))) ''availableModels'' = None"
proof (cases "snd (try_block w initial_state)")
  case (Inl e)
  then show ?thesis
    by (simp add: POST_fst catch_block_def Let_def)
next
  case (Inr resp)
  then have p: "fst (POST w) = resp" by (simp add: POST_fst)
  from Inr obtain url body where call: "outbound_call w = Some (url, body)"
    using try_block_not_called(1) [of w initial_state]
    by (cases "outbound_call w") auto
  from call obtain rq where rq: "req_json w = Inr rq" by (rule outbound_callD)
  obtain d x where f: "fetch w url body = After d x" by (cases "fetch w url body") auto
  note out = try_block_outcome [OF call rq f, of initial_state]
  show ?thesis
  proof (cases "http_status resp = 200")
    case True
    with p have "http_status (fst (POST w)) = 200" by simp
    then show ?thesis by (rule POST_200D) simp
  next
    case False
    from Inr out obtain r where x: "x = Inr r" and d: "\<not> 45000 < d"
      by (cases x; cases "45000 < d") simp_all
    obtain d2 y where t: "resp_text r = After d2 y" by (cases "resp_text r") auto
    obtain d3 z where j: "resp_json r = After d3 z" by (cases "resp_json r") auto
    show ?thesis
    proof (cases "resp_ok r")
      case True
      with Inr out x d j obtain data where
        "snd (normalize w (field rq ''model'') data initial_state) = Inr resp"
        by (cases z; cases "45000 - d < d3") simp_all
      then obtain tx where "resp = ok_response tx data" by (rule normalize_Inr)
      with p show ?thesis by simp
    next
      case nok: False
      with Inr out x d t p show ?thesis
        by (cases y; cases "45000 - d < d2") auto
    qed
  qed
qed

subsection \<open>The concrete worlds\<close>

lemma example_world_sel [simp]:
  "env_OLLAMA_URL (example_world env rq out) = env"
  "env_DEBUG_OLLAMA (example_world env rq out) = None"
  "req_json (example_world env rq out) = rq"
  "ToString (example_world env rq out) = (\<lambda>v. if v = JNum (Fin 123) then Some ''123'' else None)"
  "toLowerCase (example_world env rq out) = map ascii_lower"
  "fetch (example_world env rq out) url body = out"
  by (simp_all add: example_world_def)

lemma reply_sel [simp]:
  "resp_status (reply st stt body parsed) = st"
  "resp_statusText (reply st stt body parsed) = stt"
  "resp_text (reply st stt body parsed) = body"
  "resp_json (reply st stt body parsed) = parsed"
  by (simp_all add: reply_def)

lemma hi_request_fields [simp]:
  "hi_request m \<noteq> JNull"
  "field (hi_request m) ''messages'' = Some (JArr [chat_message ''user'' ''hi''])"
  "field (hi_request m) ''model'' = Some m"
  "field (hi_request m) ''baseUrl'' = None"
  by (simp_all add: hi_request_def request_of_def)

lemma baseUrl_request_fields [simp]:
  "baseUrl_request b \<noteq> JNull"
  "field (baseUrl_request b) ''messages'' = Some (JArr [chat_message ''user'' ''hi''])"
  "field (baseUrl_request b) ''model'' = Some (JStr ''llama3'')"
  "field (baseUrl_request b) ''baseUrl'' = Some b"
  by (simp_all add: baseUrl_request_def)

lemma hi_body_fields [simp]:
  "field (hi_body m) ''model'' = Some (JSON_stringify m)"
  "field (hi_body m) ''messages'' = Some (JArr [chat_message ''user'' ''hi''])"
  "field (hi_body m) ''stream'' = Some (JBool False)"
  by (simp_all add: hi_body_def)

lemma hi_call:
  "outbound_call (example_world None (Inr (hi_request m)) out) =
     Some (''http://localhost:11434/api/chat'', hi_body m)"
  by (simp add: outbound_call_def prepare_def destructure_def ollamaUrl_of_def env_or_default_def
      debug_log_def chat_message_def get_prop_def hi_body_def stringify_request_def)

lemma baseUrl_call:
  "outbound_call (example_world env (Inr (baseUrl_request b)) out) =
     (case template_string (\<lambda>v. if v = JNum (Fin 123) then Some ''123'' else None)
             (Some (ollamaUrl_of (Some b) env)) of
        Inl e \<Rightarrow> None
      | Inr s \<Rightarrow> Some (s @ ''/api/chat'', hi_body (JStr ''llama3'')))"
  by (simp add: outbound_call_def prepare_def destructure_def debug_log_def chat_message_def
      get_prop_def hi_body_def stringify_request_def split: sum.splits)

lemma POST_json_reply:
  "fst (POST (example_world None (Inr (hi_request m)) (json_reply data))) =
     (case snd (normalize (example_world None (Inr (hi_request m)) (json_reply data))
                  (Some m) data initial_state) of
        Inr resp \<Rightarrow> resp
      | Inl e \<Rightarrow> catch_block e)"
proof -
  let ?w = "example_world None (Inr (hi_request m)) (json_reply data)"
  let ?r = "reply 200 ''OK'' (After 5 (Inr [])) (After 5 (Inr data))"
  have f: "fetch ?w ''http://localhost:11434/api/chat'' (hi_body m) = After 120 (Inr ?r)"
    by (simp add: json_reply_def)
  have ok: "resp_ok ?r" by (simp add: resp_ok_def)
  have j: "resp_json ?r = After 5 (Inr data)" by simp
  have rq: "req_json ?w = Inr (hi_request m)" by simp
  from POST_parsed_body [OF hi_call rq f _ ok j] show ?thesis by simp
qed

lemma lower_phi: "map ascii_lower ''phi'' = ''phi''"
  by (simp add: ascii_lower_def)

lemma normalize_models:
  "normalize models_world (Some (JStr ''phi'')) models_body s =
     (s\<lparr>response_availableModels := Some [''llama3'', ''mistral'']\<rparr>,
      Inr (ok_response (JStr ''No response from Ollama'') models_body))"
  by (simp add: normalize_def extract_text_def get_prop_def text_from_response_def placeholder_def
      model_list_def models_body_def is_match_def models_world_def lower_phi)

lemma hello_facts:
  "hello_body \<noteq> JNull" "plain hello_body" "model_list hello_body = []"
  "extract_text hello_body = Inr (JStr ''hello there'')"
  by (simp_all add: hello_body_def model_list_def extract_text_def get_prop_def)

lemma hello_path:
  "req_json hello_world = Inr (hi_request (JStr ''llama3''))"
  "outbound_call hello_world = Some (''http://localhost:11434/api/chat'', hi_body (JStr ''llama3''))"
  "fetch hello_world ''http://localhost:11434/api/chat'' (hi_body (JStr ''llama3'')) =
     After 120 (Inr (reply 200 ''OK'' (After 5 (Inr [])) (After 5 (Inr hello_body))))"
  "resp_ok (reply 200 ''OK'' (After 5 (Inr [])) (After 5 (Inr hello_body)))"
  by (simp_all add: hello_world_def hi_call json_reply_def resp_ok_def)

lemma POST_hello: "fst (POST hello_world) = ok_response (JStr ''hello there'') hello_body"
  by (simp add: hello_world_def POST_json_reply normalize_def hello_facts)

lemma late_body_504: "fst (POST late_body_world) = timeout_response"
proof -
  have c: "outbound_call late_body_world =
      Some (''http://localhost:11434/api/chat'', hi_body (JStr ''llama3''))"
    and rq: "req_json late_body_world = Inr (hi_request (JStr ''llama3''))"
    and f: "fetch late_body_world ''http://localhost:11434/api/chat'' (hi_body (JStr ''llama3'')) =
      After 44000 (Inr (reply 404 ''Not Found'' (After 2000 (Inr ''model not found''))
                            (After 2000 (Inl (JsError ''SyntaxError'' ''Unexpected token'')))))"
    by (simp_all add: late_body_world_def hi_call)
  show ?thesis
    by (simp add: POST_fst try_block_outcome [OF c rq f] resp_ok_def catch_block_AbortError)
qed

section \<open>The claims\<close>

subsection \<open>C1: the list of available models\<close>

text \<open>
  Claim C1, evaluated at the scenario of the specification: the backend answers 200 with
  the models \<open>llama3\<close>, \<open>mistral\<close> and an entry without a name, and the request asks for
  \<open>phi\<close>. No descriptor matches and the list is not empty, so the handler computes the
  names \<open>llama3\<close> and \<open>mistral\<close>; line 89 stores them on the object that \<open>fetch\<close> resolved
  to, and the body of the response that line 95 returns holds \<open>text\<close> and \<open>raw\<close> only: it
  has no \<open>availableModels\<close> field.
\<close>

theorem availableModels_missing_from_result:
  "field (hi_request (JStr ''phi'')) ''model'' = Some (JStr ''phi'')
   \<and> model_list models_body =
        [JObj [(''name'', JStr ''llama3'')], JObj [(''name'', JStr ''mistral'')],
         JObj [(''foo'', JStr ''bar'')]]
   \<and> find (is_match ''phi'') (model_list models_body) = None
   \<and> fst (POST models_world) = ok_response (JStr ''No response from Ollama'') models_body
   \<and> field (http_body (fst (POST models_world))) ''availableModels'' = None
   \<and> response_availableModels (snd (POST models_world)) = Some [''llama3'', ''mistral'']"
proof -
  have c: "outbound_call models_world =
      Some (''http://localhost:11434/api/chat'', hi_body (JStr ''phi''))"
    by (simp add: models_world_def hi_call)
  have rq: "req_json models_world = Inr (hi_request (JStr ''phi''))"
    by (simp add: models_world_def)
  have f: "fetch models_world ''http://localhost:11434/api/chat'' (hi_body (JStr ''phi'')) =
      json_reply models_body"
    by (simp add: models_world_def)
  have t: "try_block models_world initial_state =
      (\<lparr>timeoutId = Some 45000, pending_timer = Some 44875,
        fetch_calls = [(''http://localhost:11434/api/chat'', hi_body (JStr ''phi''))],
        response_availableModels = Some [''llama3'', ''mistral'']\<rparr>,
       Inr (ok_response (JStr ''No response from Ollama'') models_body))"
    by (simp add: try_block_called [OF c rq] f json_reply_def await_def handle_response_def
        resp_ok_def normalize_models initial_state_def)
  have m: "model_list models_body =
        [JObj [(''name'', JStr ''llama3'')], JObj [(''name'', JStr ''mistral'')],
         JObj [(''foo'', JStr ''bar'')]]"
    by (simp add: model_list_def models_body_def)
  have n: "find (is_match ''phi'') (model_list models_body) = None"
    by (simp add: m is_match_def)
  from t have p: "fst (POST models_world) = ok_response (JStr ''No response from Ollama'') models_body"
    and a: "response_availableModels (snd (POST models_world)) = Some [''llama3'', ''mistral'']"
    by (simp_all add: POST_def finally_block_def)
  from p have "field (http_body (fst (POST models_world))) ''availableModels'' = None"
    by simp
  with m n p a show ?thesis by simp
qed

subsection \<open>C2: extraction of the text\<close>




subsection \<open>C3: a backend status outside 200-299\<close>

text \<open>
  Claim C3, as the code has it. The backend answered the outbound call in time with a
  status outside 200-299, whatever it is. When the text of its body is read within the
  time left, the handler returns 502, the \<open>details\<close> field of its body is that text and
  the \<open>code\<close> field is the backend's status. When reading the body needs more than the
  time left, the handler returns 504; when reading it fails with an error that is not an
  abort, the handler returns 500.
\<close>

theorem backend_rejection_502:
  assumes "outbound_call w = Some (url, body)"
    and "fetch w url body = After d (Inr r)" and "d \<le> 45000"
    and "\<not> resp_ok r"
    and "resp_text r = After d2 y"
  shows "(\<forall>t. y = Inr t \<and> d2 \<le> 45000 - d \<longrightarrow>
            http_status (fst (POST w)) = 502
          \<and> field (http_body (fst (POST w))) ''details'' = Some (JStr t)
          \<and> field (http_body (fst (POST w))) ''code'' = Some (JNum (Fin (of_nat (resp_status r))))
          \<and> field (http_body (fst (POST w))) ''provider'' = Some (JStr ''ollama''))
       \<and> (45000 - d < d2 \<longrightarrow> fst (POST w) = timeout_response \<and> http_status (fst (POST w)) = 504)
       \<and> (\<forall>e. y = Inl e \<and> d2 \<le> 45000 - d \<and> err_name e \<noteq> ''AbortError'' \<longrightarrow>
            fst (POST w) =
              failure_response (if err_message e = [] then ''Unknown error'' else err_message e)
          \<and> http_status (fst (POST w)) = 500)"
proof -
  from assms(1) obtain rq where rq: "req_json w = Inr rq" by (rule outbound_callD)
  note out = try_block_outcome [OF assms(1) rq assms(2), of initial_state]
  from assms(3-5) show ?thesis
    by (auto simp: POST_fst out catch_block_AbortError catch_block_other not_less [symmetric])
qed

text \<open>
  A backend that answers 404 with the text \<open>model not found\<close>, one whose 404 arrives
  after 44 seconds with a body that needs 2 more, and one whose body cannot be read.
\<close>

theorem backend_rejection_502_witness:
  "http_status (fst (POST not_found_world)) = 502
   \<and> field (http_body (fst (POST not_found_world))) ''details'' = Some (JStr ''model not found'')
   \<and> field (http_body (fst (POST not_found_world))) ''code'' = Some (JNum (Fin 404))
   \<and> http_status (fst (POST late_body_world)) = 504
   \<and> fst (POST broken_body_world) = failure_response ''terminated''"
proof -
  let ?u = "''http://localhost:11434/api/chat''" and ?b = "hi_body (JStr ''llama3'')"
  let ?r = "reply 404 ''Not Found'' (After 5 (Inr ''model not found''))
              (After 5 (Inl (JsError ''SyntaxError'' ''Unexpected token'')))"
  have c: "outbound_call not_found_world = Some (?u, ?b)"
    and f: "fetch not_found_world ?u ?b = After 120 (Inr ?r)"
    and nok: "\<not> resp_ok ?r" and t: "resp_text ?r = After 5 (Inr ''model not found'')"
    by (simp_all add: not_found_world_def hi_call error_reply_def resp_ok_def)
  from backend_rejection_502 [OF c f _ nok t]
  have p1: "http_status (fst (POST not_found_world)) = 502
   \<and> field (http_body (fst (POST not_found_world))) ''details'' = Some (JStr ''model not found'')
   \<and> field (http_body (fst (POST not_found_world))) ''code'' = Some (JNum (Fin 404))"
    by simp
  let ?l = "reply 404 ''Not Found'' (After 2000 (Inr ''model not found''))
              (After 2000 (Inl (JsError ''SyntaxError'' ''Unexpected token'')))"
  have lc: "outbound_call late_body_world = Some (?u, ?b)"
    and lf: "fetch late_body_world ?u ?b = After 44000 (Inr ?l)"
    and lnok: "\<not> resp_ok ?l" and lt: "resp_text ?l = After 2000 (Inr ''model not found'')"
    by (simp_all add: late_body_world_def hi_call resp_ok_def)
  from backend_rejection_502 [OF lc lf _ lnok lt]
  have p2: "http_status (fst (POST late_body_world)) = 504" by simp
  let ?k = "reply 404 ''Not Found'' (After 5 (Inl (JsError ''TypeError'' ''terminated'')))
              (After 5 (Inl (JsError ''TypeError'' ''terminated'')))"
  have bc: "outbound_call broken_body_world = Some (?u, ?b)"
    and bf: "fetch broken_body_world ?u ?b = After 120 (Inr ?k)"
    and bnok: "\<not> resp_ok ?k"
    and bt: "resp_text ?k = After 5 (Inl (JsError ''TypeError'' ''terminated''))"
    by (simp_all add: broken_body_world_def hi_call resp_ok_def)
  from backend_rejection_502 [OF bc bf _ bnok bt]
  have p3: "fst (POST broken_body_world) = failure_response ''terminated''" by simp
  from p1 p2 p3 show ?thesis by blast
qed

text \<open>
  Claim C3 as stated fails when the body of the answer is late: the backend answers 404
  after 44 seconds, reading its body needs 2 more, the timer fires, and the handler
  returns 504 with no \<open>details\<close> field.
\<close>

theorem backend_rejection_502_counterexample:
  "fetch late_body_world ''http://localhost:11434/api/chat'' (hi_body (JStr ''llama3'')) =
     After 44000 (Inr (reply 404 ''Not Found'' (After 2000 (Inr ''model not found''))
                         (After 2000 (Inl (JsError ''SyntaxError'' ''Unexpected token'')))))
   \<and> fetch_calls (snd (POST late_body_world)) =
        [(''http://localhost:11434/api/chat'', hi_body (JStr ''llama3''))]
   \<and> http_status (fst (POST late_body_world)) = 504
   \<and> field (http_body (fst (POST late_body_world))) ''details'' = None"
  by (simp add: late_body_504 POST_calls)
    (simp add: late_body_world_def hi_call timeout_response_def)

subsection \<open>C4: the deadline\<close>

text \<open>
  Claim C4. When the outbound exchange does not complete within the 45000 milliseconds,
  the handler returns 504 with the message \<open>Ollama request timed out\<close> and the provider
  \<open>ollama\<close>, never 200, and the timer that was armed had a delay of 45000 milliseconds.
  The other outcomes are told apart from it: a call that fails in time with an error that
  is not an abort is not a timeout and gives 500, and a backend that answers in time with
  a status outside 200-299 and a body text is not a timeout and gives 502.
\<close>

theorem deadline_504:
  "(deadline_exceeded w \<longrightarrow>
      fst (POST w) = timeout_response
    \<and> http_status (fst (POST w)) = 504
    \<and> field (http_body (fst (POST w))) ''error'' = Some (JStr ''Ollama request timed out'')
    \<and> field (http_body (fst (POST w))) ''provider'' = Some (JStr ''ollama'')
    \<and> http_status (fst (POST w)) \<noteq> 200
    \<and> http_status (fst (POST w)) \<noteq> 500
    \<and> http_status (fst (POST w)) \<noteq> 502
    \<and> timeoutId (snd (POST w)) = Some 45000)
 \<and> (\<forall>url body d e.
      outbound_call w = Some (url, body) \<and> fetch w url body = After d (Inl e) \<and> d \<le> 45000
      \<and> err_name e \<noteq> ''AbortError'' \<longrightarrow>
      \<not> deadline_exceeded w \<and> http_status (fst (POST w)) = 500)
 \<and> (\<forall>url body d r d2 t.
      outbound_call w = Some (url, body) \<and> fetch w url body = After d (Inr r) \<and> d \<le> 45000
      \<and> \<not> resp_ok r \<and> resp_text r = After d2 (Inr t) \<and> d2 \<le> 45000 - d \<longrightarrow>
      \<not> deadline_exceeded w \<and> http_status (fst (POST w)) = 502)"
proof (intro conjI allI impI)
  assume de: "deadline_exceeded w"
  then obtain url body where call: "outbound_call w = Some (url, body)"
    by (auto simp: deadline_exceeded_def split: option.splits)
  from de have "snd (try_block w initial_state) = Inl AbortError"
    by (rule deadline_exceeded_AbortError)
  then show p: "fst (POST w) = timeout_response"
    by (simp add: POST_fst catch_block_AbortError)
  then show "http_status (fst (POST w)) = 504"
    "field (http_body (fst (POST w))) ''error'' = Some (JStr ''Ollama request timed out'')"
    "field (http_body (fst (POST w))) ''provider'' = Some (JStr ''ollama'')"
    "http_status (fst (POST w)) \<noteq> 200" "http_status (fst (POST w)) \<noteq> 500"
    "http_status (fst (POST w)) \<noteq> 502"
    by simp_all
  show "timeoutId (snd (POST w)) = Some 45000"
    by (simp add: POST_snd finally_block_def try_block_called_state [OF call])
next
  fix url body d e
  assume a: "outbound_call w = Some (url, body) \<and> fetch w url body = After d (Inl e)
      \<and> d \<le> 45000 \<and> err_name e \<noteq> ''AbortError''"
  then show "\<not> deadline_exceeded w" by (simp add: deadline_exceeded_def)
  from a obtain rq where rq: "req_json w = Inr rq" by (blast elim: outbound_callD)
  from a have call: "outbound_call w = Some (url, body)"
    and f: "fetch w url body = After d (Inl e)" by simp_all
  from a show "http_status (fst (POST w)) = 500"
    by (simp add: POST_fst try_block_outcome [OF call rq f] catch_block_other)
next
  fix url body d r d2 t
  assume a: "outbound_call w = Some (url, body) \<and> fetch w url body = After d (Inr r)
      \<and> d \<le> 45000 \<and> \<not> resp_ok r \<and> resp_text r = After d2 (Inr t) \<and> d2 \<le> 45000 - d"
  then show "\<not> deadline_exceeded w" by (simp add: deadline_exceeded_def)
  from a obtain rq where rq: "req_json w = Inr rq" by (blast elim: outbound_callD)
  from a have call: "outbound_call w = Some (url, body)"
    and f: "fetch w url body = After d (Inr r)" by simp_all
  from a show "http_status (fst (POST w)) = 502"
    by (simp add: POST_fst try_block_outcome [OF call rq f])
qed

text \<open>
  A backend that needs 60 seconds, one whose body is late, a refused connection and a 404.
\<close>

theorem deadline_504_witness:
  "deadline_exceeded slow_world
   \<and> http_status (fst (POST slow_world)) = 504
   \<and> field (http_body (fst (POST slow_world))) ''error'' = Some (JStr ''Ollama request timed out'')
   \<and> field (http_body (fst (POST slow_world))) ''provider'' = Some (JStr ''ollama'')
   \<and> deadline_exceeded late_body_world
   \<and> http_status (fst (POST late_body_world)) = 504
   \<and> \<not> deadline_exceeded refused_world
   \<and> http_status (fst (POST refused_world)) = 500
   \<and> \<not> deadline_exceeded not_found_world
   \<and> http_status (fst (POST not_found_world)) = 502"
proof -
  let ?u = "''http://localhost:11434/api/chat''" and ?b = "hi_body (JStr ''llama3'')"
  have d: "deadline_exceeded slow_world"
    by (simp add: deadline_exceeded_def slow_world_def hi_call)
  have l: "deadline_exceeded late_body_world"
    by (simp add: deadline_exceeded_def late_body_world_def hi_call resp_ok_def)
  have r: "outbound_call refused_world = Some (?u, ?b)
      \<and> fetch refused_world ?u ?b = After 3 (Inl (JsError ''TypeError'' ''fetch failed''))
      \<and> (3::nat) \<le> 45000 \<and> err_name (JsError ''TypeError'' ''fetch failed'') \<noteq> ''AbortError''"
    by (simp add: refused_world_def hi_call)
  let ?r = "reply 404 ''Not Found'' (After 5 (Inr ''model not found''))
              (After 5 (Inl (JsError ''SyntaxError'' ''Unexpected token'')))"
  have n: "outbound_call not_found_world = Some (?u, ?b)
      \<and> fetch not_found_world ?u ?b = After 120 (Inr ?r) \<and> (120::nat) \<le> 45000
      \<and> \<not> resp_ok ?r \<and> resp_text ?r = After 5 (Inr ''model not found'')
      \<and> (5::nat) \<le> 45000 - 120"
    by (simp add: not_found_world_def hi_call error_reply_def resp_ok_def)
  from deadline_504 [of slow_world] d
  have p1: "http_status (fst (POST slow_world)) = 504
   \<and> field (http_body (fst (POST slow_world))) ''error'' = Some (JStr ''Ollama request timed out'')
   \<and> field (http_body (fst (POST slow_world))) ''provider'' = Some (JStr ''ollama'')"
    by blast
  from deadline_504 [of late_body_world] l
  have p2: "http_status (fst (POST late_body_world)) = 504" by blast
  from deadline_504 [of refused_world] r
  have p3: "\<not> deadline_exceeded refused_world \<and> http_status (fst (POST refused_world)) = 500"
    by blast
  from deadline_504 [of not_found_world] n
  have p4: "\<not> deadline_exceeded not_found_world \<and> http_status (fst (POST not_found_world)) = 502"
    by blast
  from d l p1 p2 p3 p4 show ?thesis by blast
qed

subsection \<open>C5: the raw body\<close>

text \<open>
  Claim C5, as the code has it. Whenever the handler returns 200, an outbound call was
  made, the backend answered it, its body parsed to some \<open>data\<close>, and the \<open>raw\<close> field of
  the result is what \<open>JSON.stringify\<close> writes for \<open>data\<close>: \<open>data\<close> itself when it holds
  no infinity and no negative zero.
\<close>

theorem raw_is_backend_body:
  assumes "http_status (fst (POST w)) = 200"
  shows "\<exists>url body d r d2 data.
           outbound_call w = Some (url, body) \<and> fetch w url body = After d (Inr r)
         \<and> resp_json r = After d2 (Inr data)
         \<and> field (http_body (fst (POST w))) ''raw'' = Some (JSON_stringify data)
         \<and> (plain data \<longrightarrow> field (http_body (fst (POST w))) ''raw'' = Some data)"
  using assms
proof (rule POST_200D)
  fix url body rq d r d2 data tx
  assume "outbound_call w = Some (url, body)" and "fetch w url body = After d (Inr r)"
    and "resp_json r = After d2 (Inr data)" and "fst (POST w) = ok_response tx data"
  then show ?thesis by (auto simp: JSON_stringify_plain)
qed

text \<open>The body \<open>{"message": {"content": "hello there"}}\<close> comes back as \<open>raw\<close>.\<close>

theorem raw_is_backend_body_witness:
  "http_status (fst (POST hello_world)) = 200
   \<and> plain hello_body
   \<and> field (http_body (fst (POST hello_world))) ''raw'' = Some hello_body"
proof -
  have s: "http_status (fst (POST hello_world)) = 200"
    by (simp add: POST_hello)
  from raw_is_backend_body [OF s] obtain url body d r d2 data where
    c: "outbound_call hello_world = Some (url, body)"
    and f: "fetch hello_world url body = After d (Inr r)"
    and j: "resp_json r = After d2 (Inr data)"
    and raw: "plain data \<longrightarrow> field (http_body (fst (POST hello_world))) ''raw'' = Some data"
    by blast
  from f have "r = reply 200 ''OK'' (After 5 (Inr [])) (After 5 (Inr hello_body))"
    by (simp add: hello_world_def json_reply_def)
  with j have "data = hello_body" by simp
  with s raw show ?thesis by (simp add: hello_facts)
qed

text \<open>
  Claim C5 as stated fails for a body that holds a number too large for a double: the
  backend body \<open>{"response": "ok", "eval_count": 1e400}\<close> parses with \<open>Infinity\<close>, and
  \<open>raw\<close> comes back with \<open>null\<close> in its place.
\<close>

theorem raw_is_backend_body_counterexample:
  "fetch big_number_world ''http://localhost:11434/api/chat'' (hi_body (JStr ''llama3'')) =
     json_reply big_number_body
   \<and> http_status (fst (POST big_number_world)) = 200
   \<and> field (http_body (fst (POST big_number_world))) ''raw'' =
        Some (JObj [(''response'', JStr ''ok''), (''eval_count'', JNull)])
   \<and> field (http_body (fst (POST big_number_world))) ''raw'' \<noteq> Some big_number_body"
proof -
  have "fst (POST big_number_world) = ok_response (JStr ''ok'') big_number_body"
    by (simp add: big_number_world_def POST_json_reply normalize_def extract_text_def
        get_prop_def text_from_response_def model_list_def big_number_body_def)
  then show ?thesis
    by simp (simp add: big_number_world_def big_number_body_def)
qed

subsection \<open>C6: the endpoint\<close>

text \<open>
  Claim C6, as the code has it. The outbound call goes to the URL made of the resolved
  endpoint followed by \<open>/api/chat\<close>. The endpoint is \<open>baseUrl\<close> of the request when that
  is truthy, spliced in by the template literal (a string that is not empty is used as it
  is). When \<open>baseUrl\<close> is absent or falsy it is the environment default if that is set
  and not empty, and \<open>http://localhost:11434\<close> otherwise.
\<close>

theorem endpoint_resolution:
  assumes "req_json w = Inr rq" and "outbound_call w = Some (url, body)"
  shows "fetch_calls (snd (POST w)) = [(url, body)]
       \<and> (\<forall>b. field rq ''baseUrl'' = Some b \<and> truthy b \<longrightarrow>
            (\<exists>s. template_string (ToString w) (Some b) = Inr s \<and> url = s @ ''/api/chat''))
       \<and> (\<forall>b. field rq ''baseUrl'' = Some (JStr b) \<and> b \<noteq> [] \<longrightarrow> url = b @ ''/api/chat'')
       \<and> ((\<forall>v. field rq ''baseUrl'' = Some v \<longrightarrow> \<not> truthy v) \<longrightarrow>
            (\<forall>e. env_OLLAMA_URL w = Some e \<and> e \<noteq> [] \<longrightarrow> url = e @ ''/api/chat'')
          \<and> (env_OLLAMA_URL w = None \<or> env_OLLAMA_URL w = Some [] \<longrightarrow>
               url = ''http://localhost:11434/api/chat''))"
proof -
  from assms(2) obtain rq' ollamaUrl base where "req_json w = Inr rq'"
    and o': "ollamaUrl = ollamaUrl_of (field rq' ''baseUrl'') (env_OLLAMA_URL w)"
    and t: "template_string (ToString w) (Some ollamaUrl) = Inr base"
    and u: "url = base @ ''/api/chat''"
    by (rule outbound_callD)
  with assms(1) have o: "ollamaUrl = ollamaUrl_of (field rq ''baseUrl'') (env_OLLAMA_URL w)"
    by simp
  have c: "fetch_calls (snd (POST w)) = [(url, body)]"
    by (simp add: POST_calls assms)
  have g: "\<forall>b. field rq ''baseUrl'' = Some b \<and> truthy b \<longrightarrow>
            (\<exists>s. template_string (ToString w) (Some b) = Inr s \<and> url = s @ ''/api/chat'')"
    using t u o by (auto simp: ollamaUrl_of_def)
  have a: "\<forall>b. field rq ''baseUrl'' = Some (JStr b) \<and> b \<noteq> [] \<longrightarrow> url = b @ ''/api/chat''"
    using t u o by (auto simp: ollamaUrl_of_def)
  have b: "(\<forall>v. field rq ''baseUrl'' = Some v \<longrightarrow> \<not> truthy v) \<longrightarrow>
            (\<forall>e. env_OLLAMA_URL w = Some e \<and> e \<noteq> [] \<longrightarrow> url = e @ ''/api/chat'')
          \<and> (env_OLLAMA_URL w = None \<or> env_OLLAMA_URL w = Some [] \<longrightarrow>
               url = ''http://localhost:11434/api/chat'')"
    using t u o
    by (cases "field rq ''baseUrl''") (auto simp: ollamaUrl_of_def env_or_default_def)
  from a b c g show ?thesis by blast
qed

text \<open>
  Nothing set; an empty \<open>baseUrl\<close> with an environment default; a \<open>baseUrl\<close> that
  overrides the environment default; and the number 123 as \<open>baseUrl\<close>.
\<close>

theorem endpoint_resolution_witness:
  "fetch_calls (snd (POST hello_world)) =
     [(''http://localhost:11434/api/chat'', hi_body (JStr ''llama3''))]
   \<and> fetch_calls (snd (POST empty_baseUrl_world)) =
     [(''http://gpu-box:11434/api/chat'', hi_body (JStr ''llama3''))]
   \<and> fetch_calls (snd (POST custom_baseUrl_world)) =
     [(''http://10.0.0.5:11434/api/chat'', hi_body (JStr ''llama3''))]
   \<and> fetch_calls (snd (POST numeric_baseUrl_world)) =
     [(''123/api/chat'', hi_body (JStr ''llama3''))]"
proof -
  let ?b = "hi_body (JStr ''llama3'')"
  obtain u1 where c1: "outbound_call hello_world = Some (u1, ?b)"
    by (simp add: hello_path)
  have e1: "env_OLLAMA_URL hello_world = None" by (simp add: hello_world_def)
  from endpoint_resolution [OF hello_path(1) c1] e1
  have k1: "fetch_calls (snd (POST hello_world)) = [(u1, ?b)]"
    and v1: "u1 = ''http://localhost:11434/api/chat''"
    by simp_all
  have r2: "req_json empty_baseUrl_world = Inr (baseUrl_request (JStr []))"
    and e2: "env_OLLAMA_URL empty_baseUrl_world = Some ''http://gpu-box:11434''"
    by (simp_all add: empty_baseUrl_world_def)
  obtain u2 where c2: "outbound_call empty_baseUrl_world = Some (u2, ?b)"
    by (simp add: empty_baseUrl_world_def baseUrl_call ollamaUrl_of_def env_or_default_def)
  from endpoint_resolution [OF r2 c2] e2
  have k2: "fetch_calls (snd (POST empty_baseUrl_world)) = [(u2, ?b)]"
    and v2: "u2 = ''http://gpu-box:11434/api/chat''"
    by simp_all
  have r3: "req_json custom_baseUrl_world = Inr (baseUrl_request (JStr ''http://10.0.0.5:11434''))"
    by (simp add: custom_baseUrl_world_def)
  obtain u3 where c3: "outbound_call custom_baseUrl_world = Some (u3, ?b)"
    by (simp add: custom_baseUrl_world_def baseUrl_call ollamaUrl_of_def)
  from endpoint_resolution [OF r3 c3]
  have k3: "fetch_calls (snd (POST custom_baseUrl_world)) = [(u3, ?b)]"
    and v3: "u3 = ''http://10.0.0.5:11434/api/chat''"
    by simp_all
  have r4: "req_json numeric_baseUrl_world = Inr (baseUrl_request (JNum (Fin 123)))"
    and t4: "ToString numeric_baseUrl_world (JNum (Fin 123)) = Some ''123''"
    by (simp_all add: numeric_baseUrl_world_def)
  obtain u4 where c4: "outbound_call numeric_baseUrl_world = Some (u4, ?b)"
    by (simp add: numeric_baseUrl_world_def baseUrl_call ollamaUrl_of_def)
  from endpoint_resolution [OF r4 c4] t4
  have k4: "fetch_calls (snd (POST numeric_baseUrl_world)) = [(u4, ?b)]"
    and v4: "u4 = ''123/api/chat''"
    by simp_all
  from k1 v1 k2 v2 k3 v3 k4 v4 show ?thesis by simp
qed

text \<open>
  Claim C6 as stated fails for a \<open>baseUrl\<close> that is present and empty: the request carries
  \<open>baseUrl: ""\<close>, and the call goes to the environment default, not to \<open>/api/chat\<close>
  prefixed with the empty \<open>baseUrl\<close>.
\<close>

theorem endpoint_resolution_counterexample:
  "req_json empty_baseUrl_world = Inr (baseUrl_request (JStr []))
   \<and> field (baseUrl_request (JStr [])) ''baseUrl'' = Some (JStr [])
   \<and> env_OLLAMA_URL empty_baseUrl_world = Some ''http://gpu-box:11434''
   \<and> fetch_calls (snd (POST empty_baseUrl_world)) =
        [(''http://gpu-box:11434/api/chat'', hi_body (JStr ''llama3''))]
   \<and> ''http://gpu-box:11434/api/chat'' \<noteq> [] @ ''/api/chat''"
proof -
  have c: "outbound_call empty_baseUrl_world =
      Some (''http://gpu-box:11434/api/chat'', hi_body (JStr ''llama3''))"
    by (simp add: empty_baseUrl_world_def baseUrl_call ollamaUrl_of_def env_or_default_def)
  then show ?thesis
    by (simp add: POST_calls) (simp add: empty_baseUrl_world_def)
qed

subsection \<open>C7: the outbound body\<close>

text \<open>
  Claim C7, as the code has it. The body of every outbound call has \<open>stream\<close> equal to
  \<open>false\<close>, and it is the one call the handler records. Its messages are the inbound
  messages in order, each reduced to its \<open>role\<close> and its \<open>content\<close> as \<open>JSON.stringify\<close>
  writes them, a field that is \<open>undefined\<close> being left out. Well-typed chat messages,
  whatever their role and content strings, are forwarded unchanged.
\<close>

theorem outbound_body_forwarded:
  assumes "outbound_call w = Some (url, body)"
  shows "field body ''stream'' = Some (JBool False)
       \<and> fetch_calls (snd (POST w)) = [(url, body)]
       \<and> (\<exists>rq ms. req_json w = Inr rq \<and> field rq ''messages'' = Some (JArr ms)
             \<and> field body ''messages'' =
                 Some (JArr (map (\<lambda>msg. JObj (property ''role'' (field msg ''role'')
                                           @ property ''content'' (field msg ''content''))) ms))
             \<and> (\<forall>cms. ms = map (\<lambda>(r, c). chat_message r c) cms \<longrightarrow>
                    field body ''messages'' = Some (JArr ms)))"
proof -
  from assms obtain rq ms where rq: "req_json w = Inr rq" "field rq ''messages'' = Some (JArr ms)"
    and b: "body = JObj (property ''model'' (field rq ''model'')
           @ [(''messages'',
               JArr (map (\<lambda>msg. JObj (property ''role'' (field msg ''role'')
                                      @ property ''content'' (field msg ''content''))) ms)),
              (''stream'', JBool False)])"
    by (rule outbound_callD)
  from b have s: "field body ''stream'' = Some (JBool False)"
    and m: "field body ''messages'' =
                 Some (JArr (map (\<lambda>msg. JObj (property ''role'' (field msg ''role'')
                                           @ property ''content'' (field msg ''content''))) ms))"
    by (simp_all only: field_request_body)
  have t: "\<forall>cms. ms = map (\<lambda>(r, c). chat_message r c) cms \<longrightarrow>
             field body ''messages'' = Some (JArr ms)"
    by (auto simp: m chat_message_def)
  have c: "fetch_calls (snd (POST w)) = [(url, body)]"
    by (simp add: POST_calls assms)
  from s m t rq c show ?thesis by blast
qed

text \<open>The request with the single message \<open>{role: "user", content: "hi"}\<close>.\<close>

theorem outbound_body_forwarded_witness:
  "outbound_call hello_world = Some (''http://localhost:11434/api/chat'', hi_body (JStr ''llama3''))
   \<and> field (hi_body (JStr ''llama3'')) ''stream'' = Some (JBool False)
   \<and> fetch_calls (snd (POST hello_world)) =
        [(''http://localhost:11434/api/chat'', hi_body (JStr ''llama3''))]
   \<and> field (hi_request (JStr ''llama3'')) ''messages'' = Some (JArr [chat_message ''user'' ''hi''])
   \<and> field (hi_body (JStr ''llama3'')) ''messages'' = Some (JArr [chat_message ''user'' ''hi''])"
proof -
  note c = hello_path(2)
  from outbound_body_forwarded [OF c] obtain rq ms where
    s: "field (hi_body (JStr ''llama3'')) ''stream'' = Some (JBool False)"
    and k: "fetch_calls (snd (POST hello_world)) =
        [(''http://localhost:11434/api/chat'', hi_body (JStr ''llama3''))]"
    and rq: "req_json hello_world = Inr rq" "field rq ''messages'' = Some (JArr ms)"
    and t: "\<forall>cms. ms = map (\<lambda>(r, c). chat_message r c) cms \<longrightarrow>
          field (hi_body (JStr ''llama3'')) ''messages'' = Some (JArr ms)"
    by blast
  from rq have m: "ms = map (\<lambda>(r, c). chat_message r c) [(''user'', ''hi'')]"
    by (auto simp: hello_world_def)
  with t have "field (hi_body (JStr ''llama3'')) ''messages'' = Some (JArr ms)" by blast
  with m c s k show ?thesis by simp
qed

text \<open>
  Claim C7 as stated fails for a content that \<open>JSON.stringify\<close> cannot write: the inbound
  content \<open>1e400\<close> parses to \<open>Infinity\<close> and reaches the backend as \<open>null\<close>.
\<close>

theorem outbound_body_forwarded_counterexample:
  "req_json infinite_message_world =
     Inr (request_of [JObj [(''role'', JStr ''user''), (''content'', JNum PosInfinity)]]
            (JStr ''llama3''))
   \<and> map (\<lambda>c. field (snd c) ''messages'') (fetch_calls (snd (POST infinite_message_world))) =
        [Some (JArr [JObj [(''role'', JStr ''user''), (''content'', JNull)]])]"
proof -
  have "outbound_call infinite_message_world =
      Some (''http://localhost:11434/api/chat'',
            JObj [(''model'', JStr ''llama3''),
                  (''messages'', JArr [JObj [(''role'', JStr ''user''), (''content'', JNull)]]),
                  (''stream'', JBool False)])"
    by (simp add: infinite_message_world_def outbound_call_def prepare_def destructure_def
        request_of_def ollamaUrl_of_def env_or_default_def debug_log_def get_prop_def
        stringify_request_def)
  then show ?thesis
    by (simp add: POST_calls) (simp add: infinite_message_world_def)
qed

subsection \<open>C8: any other failure\<close>

text \<open>
  Claim C8, as the code has it. A request body that does not parse, a call that fails in
  time (connection refused, DNS failure), a 2xx body that does not parse, the body of a
  rejected call that cannot be read, and any other error thrown in the \<open>try\<close> block, each
  with a name other than \<open>AbortError\<close>, give the response of line 104: status 500, the
  provider \<open>ollama\<close>, and in the \<open>error\<close> field the message of that error, or
  \<open>Unknown error\<close> when the message is empty.
\<close>

theorem other_failure_500:
  "(\<forall>e. req_json w = Inl e \<and> err_name e \<noteq> ''AbortError'' \<longrightarrow>
      fst (POST w) =
        failure_response (if err_message e = [] then ''Unknown error'' else err_message e))
 \<and> (\<forall>url body d e.
      outbound_call w = Some (url, body) \<and> fetch w url body = After d (Inl e) \<and> d \<le> 45000
      \<and> err_name e \<noteq> ''AbortError'' \<longrightarrow>
      fst (POST w) =
        failure_response (if err_message e = [] then ''Unknown error'' else err_message e))
 \<and> (\<forall>url body d r d2 e.
      outbound_call w = Some (url, body) \<and> fetch w url body = After d (Inr r) \<and> d \<le> 45000
      \<and> resp_ok r \<and> resp_json r = After d2 (Inl e) \<and> d2 \<le> 45000 - d
      \<and> err_name e \<noteq> ''AbortError'' \<longrightarrow>
      fst (POST w) =
        failure_response (if err_message e = [] then ''Unknown error'' else err_message e))
 \<and> (\<forall>url body d r d2 e.
      outbound_call w = Some (url, body) \<and> fetch w url body = After d (Inr r) \<and> d \<le> 45000
      \<and> \<not> resp_ok r \<and> resp_text r = After d2 (Inl e) \<and> d2 \<le> 45000 - d
      \<and> err_name e \<noteq> ''AbortError'' \<longrightarrow>
      fst (POST w) =
        failure_response (if err_message e = [] then ''Unknown error'' else err_message e))
 \<and> (\<forall>e. snd (try_block w initial_state) = Inl e \<and> err_name e \<noteq> ''AbortError'' \<longrightarrow>
      fst (POST w) =
        failure_response (if err_message e = [] then ''Unknown error'' else err_message e))
 \<and> (\<forall>m. http_status (failure_response m) = 500
        \<and> field (http_body (failure_response m)) ''error'' = Some (JStr m)
        \<and> field (http_body (failure_response m)) ''provider'' = Some (JStr ''ollama''))"
proof (intro conjI allI impI)
  fix e
  assume a: "req_json w = Inl e \<and> err_name e \<noteq> ''AbortError''"
  then have "prepare w = Inl e" by (simp add: prepare_def)
  with a show "fst (POST w) =
        failure_response (if err_message e = [] then ''Unknown error'' else err_message e)"
    by (simp add: POST_prepare_Inl(1) catch_block_other)
next
  fix url body d e
  assume a: "outbound_call w = Some (url, body) \<and> fetch w url body = After d (Inl e)
      \<and> d \<le> 45000 \<and> err_name e \<noteq> ''AbortError''"
  then obtain rq where rq: "req_json w = Inr rq" by (blast elim: outbound_callD)
  from a have call: "outbound_call w = Some (url, body)"
    and f: "fetch w url body = After d (Inl e)" by simp_all
  from a show "fst (POST w) =
        failure_response (if err_message e = [] then ''Unknown error'' else err_message e)"
    by (simp add: POST_fst try_block_outcome [OF call rq f] catch_block_other)
next
  fix url body d r d2 e
  assume a: "outbound_call w = Some (url, body) \<and> fetch w url body = After d (Inr r)
      \<and> d \<le> 45000 \<and> resp_ok r \<and> resp_json r = After d2 (Inl e) \<and> d2 \<le> 45000 - d
      \<and> err_name e \<noteq> ''AbortError''"
  then obtain rq where rq: "req_json w = Inr rq" by (blast elim: outbound_callD)
  from a have call: "outbound_call w = Some (url, body)"
    and f: "fetch w url body = After d (Inr r)" by simp_all
  from a show "fst (POST w) =
        failure_response (if err_message e = [] then ''Unknown error'' else err_message e)"
    by (simp add: POST_fst try_block_outcome [OF call rq f] catch_block_other)
next
  fix url body d r d2 e
  assume a: "outbound_call w = Some (url, body) \<and> fetch w url body = After d (Inr r)
      \<and> d \<le> 45000 \<and> \<not> resp_ok r \<and> resp_text r = After d2 (Inl e) \<and> d2 \<le> 45000 - d
      \<and> err_name e \<noteq> ''AbortError''"
  then obtain rq where rq: "req_json w = Inr rq" by (blast elim: outbound_callD)
  from a have call: "outbound_call w = Some (url, body)"
    and f: "fetch w url body = After d (Inr r)" by simp_all
  from a show "fst (POST w) =
        failure_response (if err_message e = [] then ''Unknown error'' else err_message e)"
    by (simp add: POST_fst try_block_outcome [OF call rq f] catch_block_other)
next
  fix e
  assume "snd (try_block w initial_state) = Inl e \<and> err_name e \<noteq> ''AbortError''"
  then show "fst (POST w) =
        failure_response (if err_message e = [] then ''Unknown error'' else err_message e)"
    by (simp add: POST_fst catch_block_other)
qed simp_all

text \<open>
  A request that is not JSON, a refused connection, a 200 whose body is HTML, and a 404
  whose body cannot be read.
\<close>

theorem other_failure_500_witness:
  "fst (POST invalid_json_world) = failure_response ''Unexpected end of JSON input''
   \<and> fst (POST refused_world) = failure_response ''fetch failed''
   \<and> fst (POST malformed_body_world) = failure_response ''Unexpected token''
   \<and> fst (POST broken_body_world) = failure_response ''terminated''
   \<and> http_status (failure_response ''fetch failed'') = 500
   \<and> field (http_body (failure_response ''fetch failed'')) ''error'' = Some (JStr ''fetch failed'')"
proof -
  let ?u = "''http://localhost:11434/api/chat''" and ?b = "hi_body (JStr ''llama3'')"
  let ?i = "JsError ''SyntaxError'' ''Unexpected end of JSON input''"
  have a: "req_json invalid_json_world = Inl ?i \<and> err_name ?i \<noteq> ''AbortError''"
    by (simp add: invalid_json_world_def)
  from other_failure_500 [of invalid_json_world] a
  have p1: "fst (POST invalid_json_world) =
      failure_response (if err_message ?i = [] then ''Unknown error'' else err_message ?i)"
    by blast
  let ?f = "JsError ''TypeError'' ''fetch failed''"
  have b: "outbound_call refused_world = Some (?u, ?b)
      \<and> fetch refused_world ?u ?b = After 3 (Inl ?f) \<and> (3::nat) \<le> 45000
      \<and> err_name ?f \<noteq> ''AbortError''"
    by (simp add: refused_world_def hi_call)
  from other_failure_500 [of refused_world] b
  have p2: "fst (POST refused_world) =
      failure_response (if err_message ?f = [] then ''Unknown error'' else err_message ?f)"
    by blast
  let ?s = "JsError ''SyntaxError'' ''Unexpected token''"
  let ?m = "reply 200 ''OK'' (After 5 (Inr ''<html>'')) (After 5 (Inl ?s))"
  have c: "outbound_call malformed_body_world = Some (?u, ?b)
      \<and> fetch malformed_body_world ?u ?b = After 120 (Inr ?m) \<and> (120::nat) \<le> 45000
      \<and> resp_ok ?m \<and> resp_json ?m = After 5 (Inl ?s) \<and> (5::nat) \<le> 45000 - 120
      \<and> err_name ?s \<noteq> ''AbortError''"
    by (simp add: malformed_body_world_def hi_call resp_ok_def)
  from other_failure_500 [of malformed_body_world] c
  have p3: "fst (POST malformed_body_world) =
      failure_response (if err_message ?s = [] then ''Unknown error'' else err_message ?s)"
    by blast
  let ?t = "JsError ''TypeError'' ''terminated''"
  let ?k = "reply 404 ''Not Found'' (After 5 (Inl ?t)) (After 5 (Inl ?t))"
  have d: "outbound_call broken_body_world = Some (?u, ?b)
      \<and> fetch broken_body_world ?u ?b = After 120 (Inr ?k) \<and> (120::nat) \<le> 45000
      \<and> \<not> resp_ok ?k \<and> resp_text ?k = After 5 (Inl ?t) \<and> (5::nat) \<le> 45000 - 120
      \<and> err_name ?t \<noteq> ''AbortError''"
    by (simp add: broken_body_world_def hi_call resp_ok_def)
  from other_failure_500 [of broken_body_world] d
  have p4: "fst (POST broken_body_world) =
      failure_response (if err_message ?t = [] then ''Unknown error'' else err_message ?t)"
    by blast
  from other_failure_500 [of refused_world]
  have p5: "http_status (failure_response ''fetch failed'') = 500
   \<and> field (http_body (failure_response ''fetch failed'')) ''error'' = Some (JStr ''fetch failed'')"
    by blast
  from p1 p2 p3 p4 p5 show ?thesis by simp
qed

text \<open>
  Claim C8 as stated fails for an error without a message: \<open>fetch\<close> rejects with an error
  whose message is empty, and the \<open>error\<close> field of the 500 response is \<open>Unknown error\<close>,
  not that message.
\<close>

theorem other_failure_500_counterexample:
  "fetch silent_failure_world ''http://localhost:11434/api/chat'' (hi_body (JStr ''llama3'')) =
     After 3 (Inl (JsError ''Error'' []))
   \<and> fetch_calls (snd (POST silent_failure_world)) =
        [(''http://localhost:11434/api/chat'', hi_body (JStr ''llama3''))]
   \<and> http_status (fst (POST silent_failure_world)) = 500
   \<and> field (http_body (fst (POST silent_failure_world))) ''error'' = Some (JStr ''Unknown error'')
   \<and> JStr ''Unknown error'' \<noteq> JStr (err_message (JsError ''Error'' []))"
proof -
  have c: "outbound_call silent_failure_world =
      Some (''http://localhost:11434/api/chat'', hi_body (JStr ''llama3''))"
    and rq: "req_json silent_failure_world = Inr (hi_request (JStr ''llama3''))"
    and f: "fetch silent_failure_world ''http://localhost:11434/api/chat''
              (hi_body (JStr ''llama3'')) = After 3 (Inl (JsError ''Error'' []))"
    by (simp_all add: silent_failure_world_def hi_call)
  have "fst (POST silent_failure_world) = failure_response ''Unknown error''"
    by (simp add: POST_fst try_block_outcome [OF c rq f] catch_block_def)
  with c f show ?thesis by (simp add: POST_calls)
qed

subsection \<open>C9: the timer\<close>

text \<open>
  Claim C9. Whatever the request, the environment and the backend do, no timer is pending
  when the handler returns.
\<close>

theorem timer_cleared_on_every_exit: "pending_timer (snd (POST w)) = None"
proof (cases "outbound_call w")
  case None
  show ?thesis
  proof (cases "timeoutId (fst (try_block w initial_state)) = None")
    case True
    with try_block_not_called(3) [OF None, of initial_state]
    have "fst (try_block w initial_state) = initial_state" by simp
    then show ?thesis by (simp add: POST_snd finally_block_def initial_state_def)
  next
    case False
    then show ?thesis by (simp add: POST_snd finally_block_def)
  qed
next
  case (Some c)
  then obtain url ob where "outbound_call w = Some (url, ob)" by (cases c) simp
  then show ?thesis
    by (simp add: POST_snd finally_block_def try_block_called_state)
qed

subsection \<open>C10: requests that are not validated\<close>

text \<open>
  Claim C10, as the code has it. A request body that does not parse gives 500 with the
  message of the parser's error, and no outbound call. A \<open>messages\<close> field that is not an
  array gives 500 with the message of a TypeError, and no outbound call. The model is not
  looked at before the call: with diagnostics off, a request that is not \<open>null\<close>, whose
  messages are an array without a \<open>null\<close> entry and whose endpoint converts to a string,
  is forwarded whatever its model is. For a model that is not a string the handler then
  returns 500 with the message of a TypeError when the backend answers 2xx in time with a
  body that parses, 502 when it answers in time with another status and a body text, and
  504 when the exchange exceeds the deadline; when no call is made it returns 500.
\<close>

theorem unvalidated_request_500:
  "(\<forall>e. req_json w = Inl e \<and> err_name e \<noteq> ''AbortError'' \<and> err_message e \<noteq> [] \<longrightarrow>
       fst (POST w) = failure_response (err_message e) \<and> http_status (fst (POST w)) = 500
     \<and> fetch_calls (snd (POST w)) = [])
 \<and> (\<forall>rq. req_json w = Inr rq \<and> (\<forall>ms. field rq ''messages'' \<noteq> Some (JArr ms)) \<longrightarrow>
       (\<exists>e. err_name e = ''TypeError'' \<and> err_message e \<noteq> []
            \<and> fst (POST w) = failure_response (err_message e))
     \<and> http_status (fst (POST w)) = 500
     \<and> fetch_calls (snd (POST w)) = [])
 \<and> (\<forall>rq ms base.
       req_json w = Inr rq \<and> rq \<noteq> JNull \<and> field rq ''messages'' = Some (JArr ms)
     \<and> JNull \<notin> set ms \<and> env_DEBUG_OLLAMA w \<noteq> Some ''1''
     \<and> template_string (ToString w)
          (Some (ollamaUrl_of (field rq ''baseUrl'') (env_OLLAMA_URL w))) = Inr base \<longrightarrow>
       (\<exists>body. outbound_call w = Some (base @ ''/api/chat'', body)
              \<and> fetch_calls (snd (POST w)) = [(base @ ''/api/chat'', body)]))
 \<and> (\<forall>rq url body d r d2 data.
       req_json w = Inr rq \<and> (\<forall>m. field rq ''model'' \<noteq> Some (JStr m))
     \<and> outbound_call w = Some (url, body) \<and> fetch w url body = After d (Inr r) \<and> d \<le> 45000
     \<and> resp_ok r \<and> resp_json r = After d2 (Inr data) \<and> d2 \<le> 45000 - d \<longrightarrow>
       (\<exists>e. err_name e = ''TypeError'' \<and> err_message e \<noteq> []
            \<and> fst (POST w) = failure_response (err_message e))
     \<and> http_status (fst (POST w)) = 500
     \<and> fetch_calls (snd (POST w)) = [(url, body)])
 \<and> (\<forall>rq url body d r d2 t.
       req_json w = Inr rq \<and> (\<forall>m. field rq ''model'' \<noteq> Some (JStr m))
     \<and> outbound_call w = Some (url, body) \<and> fetch w url body = After d (Inr r) \<and> d \<le> 45000
     \<and> \<not> resp_ok r \<and> resp_text r = After d2 (Inr t) \<and> d2 \<le> 45000 - d \<longrightarrow>
       http_status (fst (POST w)) = 502)
 \<and> (\<forall>rq. req_json w = Inr rq \<and> (\<forall>m. field rq ''model'' \<noteq> Some (JStr m))
     \<and> deadline_exceeded w \<longrightarrow>
       http_status (fst (POST w)) = 504)
 \<and> (\<forall>rq. req_json w = Inr rq \<and> (\<forall>m. field rq ''model'' \<noteq> Some (JStr m))
     \<and> outbound_call w = None \<longrightarrow>
       http_status (fst (POST w)) = 500 \<and> fetch_calls (snd (POST w)) = [])"
proof (intro conjI allI impI)
  fix e
  assume a: "req_json w = Inl e \<and> err_name e \<noteq> ''AbortError'' \<and> err_message e \<noteq> []"
  then have p: "prepare w = Inl e" by (simp add: prepare_def)
  from a show "fst (POST w) = failure_response (err_message e)"
    by (simp add: POST_prepare_Inl(1) [OF p] catch_block_other)
  then show "http_status (fst (POST w)) = 500" by simp
  show "fetch_calls (snd (POST w)) = []" by (rule POST_prepare_Inl(2) [OF p])
next
  fix rq
  assume a: "req_json w = Inr rq \<and> (\<forall>ms. field rq ''messages'' \<noteq> Some (JArr ms))"
  then have rq: "req_json w = Inr rq" by simp
  have n: "outbound_call w = None"
  proof (cases "outbound_call w")
    case (Some c)
    then obtain url body where "outbound_call w = Some (url, body)" by (cases c) auto
    then obtain rq' ms where "req_json w = Inr rq'" and "field rq' ''messages'' = Some (JArr ms)"
      by (rule outbound_callD)
    with a show ?thesis by simp
  qed simp
  from not_called_500 [OF rq n]
  show e: "\<exists>e. err_name e = ''TypeError'' \<and> err_message e \<noteq> []
            \<and> fst (POST w) = failure_response (err_message e)"
    and "fetch_calls (snd (POST w)) = []" by blast+
  from e show "http_status (fst (POST w)) = 500" by auto
next
  fix rq ms base
  assume a: "req_json w = Inr rq \<and> rq \<noteq> JNull \<and> field rq ''messages'' = Some (JArr ms)
     \<and> JNull \<notin> set ms \<and> env_DEBUG_OLLAMA w \<noteq> Some ''1''
     \<and> template_string (ToString w)
          (Some (ollamaUrl_of (field rq ''baseUrl'') (env_OLLAMA_URL w))) = Inr base"
  then obtain body where "outbound_call w = Some (base @ ''/api/chat'', body)"
    using request_forwarded [of w rq ms base] by blast
  then show "\<exists>body. outbound_call w = Some (base @ ''/api/chat'', body)
              \<and> fetch_calls (snd (POST w)) = [(base @ ''/api/chat'', body)]"
    by (simp add: POST_calls)
next
  fix rq url body d r d2 data
  assume a: "req_json w = Inr rq \<and> (\<forall>m. field rq ''model'' \<noteq> Some (JStr m))
     \<and> outbound_call w = Some (url, body) \<and> fetch w url body = After d (Inr r) \<and> d \<le> 45000
     \<and> resp_ok r \<and> resp_json r = After d2 (Inr data) \<and> d2 \<le> 45000 - d"
  then have call: "outbound_call w = Some (url, body)" and rq: "req_json w = Inr rq"
    and f: "fetch w url body = After d (Inr r)" and d: "d \<le> 45000" and ok: "resp_ok r"
    and j: "resp_json r = After d2 (Inr data)" and d2: "d2 \<le> 45000 - d"
    and m: "\<forall>m. field rq ''model'' \<noteq> Some (JStr m)" by simp_all
  from normalize_not_string [OF m, of w data initial_state]
  obtain e where n: "snd (normalize w (field rq ''model'') data initial_state) = Inl e"
    and t: "err_name e = ''TypeError'' \<and> err_message e \<noteq> []" by blast
  from n t have p: "fst (POST w) = failure_response (err_message e)"
    by (simp add: POST_parsed_body [OF call rq f d ok j d2] catch_block_other)
  with t show "\<exists>e. err_name e = ''TypeError'' \<and> err_message e \<noteq> []
            \<and> fst (POST w) = failure_response (err_message e)" by blast
  from p show "http_status (fst (POST w)) = 500" by simp
  show "fetch_calls (snd (POST w)) = [(url, body)]" by (simp add: POST_calls call)
next
  fix rq url body d r d2 t
  assume a: "req_json w = Inr rq \<and> (\<forall>m. field rq ''model'' \<noteq> Some (JStr m))
     \<and> outbound_call w = Some (url, body) \<and> fetch w url body = After d (Inr r) \<and> d \<le> 45000
     \<and> \<not> resp_ok r \<and> resp_text r = After d2 (Inr t) \<and> d2 \<le> 45000 - d"
  then have call: "outbound_call w = Some (url, body)" and rq: "req_json w = Inr rq"
    and f: "fetch w url body = After d (Inr r)" by simp_all
  from a show "http_status (fst (POST w)) = 502"
    by (simp add: POST_fst try_block_outcome [OF call rq f])
next
  fix rq
  assume "req_json w = Inr rq \<and> (\<forall>m. field rq ''model'' \<noteq> Some (JStr m))
     \<and> deadline_exceeded w"
  then have "deadline_exceeded w" by simp
  then show "http_status (fst (POST w)) = 504" by (simp add: deadline_exceeded_504)
next
  fix rq
  assume a: "req_json w = Inr rq \<and> (\<forall>m. field rq ''model'' \<noteq> Some (JStr m))
     \<and> outbound_call w = None"
  then have rq: "req_json w = Inr rq" and n: "outbound_call w = None" by simp_all
  from not_called_500 [OF rq n]
  show "http_status (fst (POST w)) = 500" and "fetch_calls (snd (POST w)) = []" by auto
qed

text \<open>
  A request that is not JSON; one whose \<open>messages\<close> is a string; requests with the model
  5 to a backend that answers 200, to one that answers 400 and to one that needs 60
  seconds; and a request with the model 5 and no messages.
\<close>

theorem unvalidated_request_500_witness:
  "fst (POST invalid_json_world) = failure_response ''Unexpected end of JSON input''
   \<and> fetch_calls (snd (POST invalid_json_world)) = []
   \<and> http_status (fst (POST no_messages_world)) = 500
   \<and> fetch_calls (snd (POST no_messages_world)) = []
   \<and> http_status (fst (POST numeric_model_ok_world)) = 500
   \<and> fetch_calls (snd (POST numeric_model_ok_world)) =
        [(''http://localhost:11434/api/chat'', hi_body (JNum (Fin 5)))]
   \<and> http_status (fst (POST numeric_model_world)) = 502
   \<and> http_status (fst (POST numeric_model_slow_world)) = 504
   \<and> http_status (fst (POST numeric_model_only_world)) = 500
   \<and> fetch_calls (snd (POST numeric_model_only_world)) = []"
proof -
  let ?u = "''http://localhost:11434/api/chat''" and ?b = "hi_body (JNum (Fin 5))"
  let ?q = "hi_request (JNum (Fin 5))"
  let ?e = "JsError ''SyntaxError'' ''Unexpected end of JSON input''"
  have a: "req_json invalid_json_world = Inl ?e \<and> err_name ?e \<noteq> ''AbortError''
           \<and> err_message ?e \<noteq> []"
    by (simp add: invalid_json_world_def)
  from unvalidated_request_500 [of invalid_json_world, THEN conjunct1, rule_format, of ?e] a
  have p1: "fst (POST invalid_json_world) = failure_response (err_message ?e)
            \<and> fetch_calls (snd (POST invalid_json_world)) = []"
    by simp
  let ?rq = "JObj [(''messages'', JStr ''hi''), (''model'', JStr ''llama3'')]"
  have b: "req_json no_messages_world = Inr ?rq
           \<and> (\<forall>ms. field ?rq ''messages'' \<noteq> Some (JArr ms))"
    by (simp add: no_messages_world_def)
  from unvalidated_request_500 [of no_messages_world, THEN conjunct2, THEN conjunct1, rule_format] b
  have p2: "http_status (fst (POST no_messages_world)) = 500
            \<and> fetch_calls (snd (POST no_messages_world)) = []"
    by blast
  have m: "\<forall>m. field ?q ''model'' \<noteq> Some (JStr m)" by simp
  let ?r = "reply 200 ''OK'' (After 5 (Inr [])) (After 5 (Inr hello_body))"
  have c: "req_json numeric_model_ok_world = Inr ?q
           \<and> outbound_call numeric_model_ok_world = Some (?u, ?b)
           \<and> fetch numeric_model_ok_world ?u ?b = After 120 (Inr ?r) \<and> (120::nat) \<le> 45000
           \<and> resp_ok ?r \<and> resp_json ?r = After 5 (Inr hello_body) \<and> (5::nat) \<le> 45000 - 120"
    by (simp add: numeric_model_ok_world_def hi_call resp_ok_def json_reply_def)
  from unvalidated_request_500 [of numeric_model_ok_world, THEN conjunct2, THEN conjunct2, THEN conjunct2, THEN conjunct1, rule_format] c m
  have p3: "http_status (fst (POST numeric_model_ok_world)) = 500
            \<and> fetch_calls (snd (POST numeric_model_ok_world)) = [(?u, ?b)]"
    by blast
  have f: "req_json numeric_model_ok_world = Inr ?q \<and> ?q \<noteq> JNull
           \<and> field ?q ''messages'' = Some (JArr [chat_message ''user'' ''hi''])
           \<and> JNull \<notin> set [chat_message ''user'' ''hi'']
           \<and> env_DEBUG_OLLAMA numeric_model_ok_world \<noteq> Some ''1''
           \<and> template_string (ToString numeric_model_ok_world)
                (Some (ollamaUrl_of (field ?q ''baseUrl'') (env_OLLAMA_URL numeric_model_ok_world)))
              = Inr ''http://localhost:11434''"
    by (simp add: numeric_model_ok_world_def chat_message_def ollamaUrl_of_def env_or_default_def)
  from unvalidated_request_500 [of numeric_model_ok_world, THEN conjunct2, THEN conjunct2, THEN conjunct1, rule_format] f
  have p3': "\<exists>body. outbound_call numeric_model_ok_world =
               Some (''http://localhost:11434'' @ ''/api/chat'', body)"
    by blast
  let ?n = "reply 400 ''Bad Request'' (After 5 (Inr ''invalid model''))
              (After 5 (Inl (JsError ''SyntaxError'' ''Unexpected token'')))"
  have d: "req_json numeric_model_world = Inr ?q
           \<and> outbound_call numeric_model_world = Some (?u, ?b)
           \<and> fetch numeric_model_world ?u ?b = After 120 (Inr ?n) \<and> (120::nat) \<le> 45000
           \<and> \<not> resp_ok ?n \<and> resp_text ?n = After 5 (Inr ''invalid model'')
           \<and> (5::nat) \<le> 45000 - 120"
    by (simp add: numeric_model_world_def hi_call resp_ok_def error_reply_def)
  from unvalidated_request_500 [of numeric_model_world, THEN conjunct2, THEN conjunct2, THEN conjunct2, THEN conjunct2, THEN conjunct1, rule_format] d m
  have p4: "http_status (fst (POST numeric_model_world)) = 502"
    by blast
  have s: "req_json numeric_model_slow_world = Inr ?q \<and> deadline_exceeded numeric_model_slow_world"
    by (simp add: numeric_model_slow_world_def deadline_exceeded_def hi_call)
  from unvalidated_request_500 [of numeric_model_slow_world, THEN conjunct2, THEN conjunct2, THEN conjunct2, THEN conjunct2, THEN conjunct2, THEN conjunct1, rule_format] s m
  have p5: "http_status (fst (POST numeric_model_slow_world)) = 504"
    by blast
  let ?o = "JObj [(''model'', JNum (Fin 5))]"
  have o: "req_json numeric_model_only_world = Inr ?o
           \<and> (\<forall>m. field ?o ''model'' \<noteq> Some (JStr m))
           \<and> outbound_call numeric_model_only_world = None"
    by (simp add: numeric_model_only_world_def outbound_call_def prepare_def destructure_def
        debug_log_def)
  from unvalidated_request_500 [of numeric_model_only_world, THEN conjunct2, THEN conjunct2, THEN conjunct2, THEN conjunct2, THEN conjunct2, THEN conjunct2, rule_format] o
  have p6: "http_status (fst (POST numeric_model_only_world)) = 500
            \<and> fetch_calls (snd (POST numeric_model_only_world)) = []"
    by blast
  from p1 p2 p3 p4 p5 p6 show ?thesis by simp
qed

text \<open>
  Claim C10 as stated fails for a \<open>model\<close> that is not a string when the backend rejects
  the call: the request with the model 5 is forwarded, the backend answers 400, and the
  handler returns 502, not 500.
\<close>

theorem unvalidated_request_500_counterexample:
  "req_json numeric_model_world = Inr (hi_request (JNum (Fin 5)))
   \<and> field (hi_request (JNum (Fin 5))) ''model'' = Some (JNum (Fin 5))
   \<and> fetch_calls (snd (POST numeric_model_world)) =
        [(''http://localhost:11434/api/chat'', hi_body (JNum (Fin 5)))]
   \<and> http_status (fst (POST numeric_model_world)) = 502"
proof -
  let ?r = "reply 400 ''Bad Request'' (After 5 (Inr ''invalid model''))
              (After 5 (Inl (JsError ''SyntaxError'' ''Unexpected token'')))"
  have c: "outbound_call numeric_model_world =
      Some (''http://localhost:11434/api/chat'', hi_body (JNum (Fin 5)))"
    and rq: "req_json numeric_model_world = Inr (hi_request (JNum (Fin 5)))"
    and f: "fetch numeric_model_world ''http://localhost:11434/api/chat'' (hi_body (JNum (Fin 5))) =
      After 120 (Inr ?r)"
    by (simp_all add: numeric_model_world_def hi_call error_reply_def)
  have "fst (POST numeric_model_world) = backend_error_response ?r ''invalid model''"
    by (simp add: POST_fst try_block_outcome [OF c rq f] resp_ok_def)
  with c rq show ?thesis by (simp add: POST_calls)
qed

end
